theory Spec2Isabelle
  imports Main
begin

section \<open>Python primitives used by setup.py\<close>

text \<open>
  Strings are byte lists. The model covers ASCII text: \<open>str.lower\<close>, \<open>str.strip\<close>
  and \<open>int\<close> treat bytes above 127 as ordinary characters.
\<close>

datatype error =
    OSError string
  | ValueError
  | KeyError string
  | Exception string
  | CalledProcessError string

text \<open>\<open>s.startswith(p)\<close>.\<close>

definition startswith :: "string \<Rightarrow> string \<Rightarrow> bool" where
  "startswith s p = (take (length p) s = p)"

text \<open>\<open>s.split(c)\<close> for a one-character separator: never the empty list.\<close>

fun split_char :: "char \<Rightarrow> string \<Rightarrow> string list" where
  "split_char c [] = [[]]"
| "split_char c (x # xs) =
     (if x = c then [] # split_char c xs
      else (case split_char c xs of
              [] \<Rightarrow> [[x]]
            | w # ws \<Rightarrow> (x # w) # ws))"

text \<open>\<open>s.replace('.', '/')\<close>.\<close>

definition replace_dots :: "string \<Rightarrow> string" where
  "replace_dots s = map (\<lambda>c. if c = CHR ''.'' then CHR ''/'' else c) s"

text \<open>
  \<open>fmt % arg\<close> for a string argument and a format whose only directive is one
  \<open>%s\<close>, which is the shape of every format string of setup.py that is applied to a
  string.
\<close>

fun py_format :: "string \<Rightarrow> string \<Rightarrow> string" where
  "py_format [] m = []"
| "py_format (c # cs) m =
     (if c = CHR ''%'' \<and> take 1 cs = ''s'' then m @ drop 1 cs
      else c # py_format cs m)"

text \<open>\<open>s.lower()\<close> on ASCII.\<close>

definition lower_char :: "char \<Rightarrow> char" where
  "lower_char c =
     (case map_of (zip ''ABCDEFGHIJKLMNOPQRSTUVWXYZ'' ''abcdefghijklmnopqrstuvwxyz'') c of
        None \<Rightarrow> c
      | Some l \<Rightarrow> l)"

definition lower :: "string \<Rightarrow> string" where
  "lower s = map lower_char s"

text \<open>
  The characters \<open>str.strip()\<close> removes: tab, line feed, vertical tab, form feed,
  carriage return, the four separators 28 to 31, and space.
\<close>

definition is_space :: "char \<Rightarrow> bool" where
  "is_space c = (let n = (of_char c :: nat) in (9 \<le> n \<and> n \<le> 13) \<or> (28 \<le> n \<and> n \<le> 32))"

definition strip :: "string \<Rightarrow> string" where
  "strip s = rev (dropWhile is_space (rev (dropWhile is_space s)))"

definition is_digit :: "char \<Rightarrow> bool" where
  "is_digit c = (let n = (of_char c :: nat) in 48 \<le> n \<and> n \<le> 57)"

definition digit_val :: "char \<Rightarrow> int" where
  "digit_val c = int (of_char c) - 48"

text \<open>
  The digits of a decimal literal after its sign: a digit first, then digits, each
  optionally preceded by one underscore (Python 3.6 and later). The accumulator is the
  value read so far.
\<close>

fun digits_value :: "int \<Rightarrow> string \<Rightarrow> int option" where
  "digits_value acc [] = Some acc"
| "digits_value acc [c] = (if is_digit c then Some (10 * acc + digit_val c) else None)"
| "digits_value acc (c # d # cs) =
     (if is_digit c then digits_value (10 * acc + digit_val c) (d # cs)
      else if c = CHR ''_'' \<and> is_digit d then digits_value acc (d # cs)
      else None)"

text \<open>
  The characters \<open>int()\<close> skips around a literal: tab, line feed, vertical tab, form
  feed, carriage return and space. The separators 28 to 31, which \<open>str.strip()\<close>
  removes, are no blanks for \<open>int()\<close>.
\<close>

definition is_int_space :: "char \<Rightarrow> bool" where
  "is_int_space c = (let n = (of_char c :: nat) in (9 \<le> n \<and> n \<le> 13) \<or> n = 32)"

definition int_strip :: "string \<Rightarrow> string" where
  "int_strip s = rev (dropWhile is_int_space (rev (dropWhile is_int_space s)))"

text \<open>
  The limit on the digits of a decimal literal. \<open>max_str_digits\<close> is
  \<open>sys.get_int_max_str_digits()\<close>: 4300 by default from Python 3.11 on, 0 when the
  limit is switched off, and 0 for an interpreter that has none. Literals of at most 640
  digits are never refused. Leading zeros count, underscores do not.
\<close>

definition exceeds_digit_limit :: "nat \<Rightarrow> string \<Rightarrow> bool" where
  "exceeds_digit_limit max_str_digits body =
     (let digits = length (filter is_digit body)
      in 640 < digits \<and> 0 < max_str_digits \<and> max_str_digits < digits)"

text \<open>The literal after its sign: it starts with a digit and respects the limit.\<close>

definition unsigned_value :: "nat \<Rightarrow> string \<Rightarrow> int option" where
  "unsigned_value max_str_digits body =
     (case body of
        [] \<Rightarrow> None
      | d # _ \<Rightarrow>
          if \<not> is_digit d then None
          else if exceeds_digit_limit max_str_digits body then None
          else digits_value 0 body)"

text \<open>
  \<open>int(s)\<close> in base ten for ASCII text; \<open>None\<close> is the \<open>ValueError\<close>.
\<close>

definition py_int :: "nat \<Rightarrow> string \<Rightarrow> int option" where
  "py_int max_str_digits s =
     (case int_strip s of
        [] \<Rightarrow> None
      | c # cs \<Rightarrow>
          if c = CHR ''-'' then map_option uminus (unsigned_value max_str_digits cs)
          else if c = CHR ''+'' then unsigned_value max_str_digits cs
          else unsigned_value max_str_digits (c # cs))"

text \<open>\<open>[int(v) for v in parts]\<close>: the first part that is no integer raises.\<close>

fun ints_of :: "nat \<Rightarrow> string list \<Rightarrow> int list option" where
  "ints_of max_str_digits [] = Some []"
| "ints_of max_str_digits (v # vs) =
     (case py_int max_str_digits v of
        None \<Rightarrow> None
      | Some n \<Rightarrow>
          (case ints_of max_str_digits vs of None \<Rightarrow> None | Some ns \<Rightarrow> Some (n # ns)))"

text \<open>
  \<open>a >= b\<close> on lists of integers: the first position where the lists differ decides;
  when one list is a prefix of the other, the lengths decide.
\<close>

fun list_ge :: "int list \<Rightarrow> int list \<Rightarrow> bool" where
  "list_ge (x # xs) (y # ys) = (if x = y then list_ge xs ys else x \<ge> y)"
| "list_ge [] (y # ys) = False"
| "list_ge xs [] = True"

section \<open>The source format\<close>



section \<open>Linker arguments\<close>

text \<open>
  The loop of \<open>Config.__init__\<close> over the linker tokens. The accumulator holds
  \<open>library_dirs\<close>, \<open>libraries\<close> and \<open>link_args\<close>, all empty at the start.
\<close>

fun partition_link_args ::
  "string list \<Rightarrow> string list \<times> string list \<times> string list
     \<Rightarrow> string list \<times> string list \<times> string list" where
  "partition_link_args [] acc = acc"
| "partition_link_args (arg # rest) (dirs, libs, largs) =
     (if startswith arg ''-L'' then partition_link_args rest (dirs @ [drop 2 arg], libs, largs)
      else if startswith arg ''-l'' then partition_link_args rest (dirs, libs @ [drop 2 arg], largs)
      else partition_link_args rest (dirs, libs, largs @ [arg]))"

section \<open>Choice of the platform configuration\<close>

datatype variant = WindowsConfig | DarwinGSSFrameWorkConfig | MSYSConfig | Config

text \<open>
  The second test of the chain: \<open>sys.platform == 'darwin' and [int(v) for v in
  platform.mac_ver()[0].split('.')] >= [10, 7, 0]\<close>. The version is read only on
  darwin.
\<close>

definition darwin_has_framework :: "nat \<Rightarrow> string \<Rightarrow> string \<Rightarrow> error + bool" where
  "darwin_has_framework max_str_digits sys_platform mac_ver =
     (if sys_platform = ''darwin'' then
        (case ints_of max_str_digits (split_char CHR ''.'' mac_ver) of
           None \<Rightarrow> Inl ValueError
         | Some vs \<Rightarrow> Inr (list_ge vs [10, 7, 0]))
      else Inr False)"

text \<open>
  The chain of lines 226 to 234 that picks the class of \<open>config\<close>. The result names
  the class; its construction is \<open>Config_init\<close> below (the construction of
  \<open>WindowsConfig\<close>, which searches the disk for the Kerberos installation, is not
  part of this development).
\<close>

definition select_config ::
  "nat \<Rightarrow> string \<Rightarrow> string \<Rightarrow> string \<Rightarrow> error + variant" where
  "select_config max_str_digits os_name sys_platform mac_ver =
     (if os_name = ''nt'' then Inr WindowsConfig
      else (case darwin_has_framework max_str_digits sys_platform mac_ver of
              Inl e \<Rightarrow> Inl e
            | Inr True \<Rightarrow> Inr DarwinGSSFrameWorkConfig
            | Inr False \<Rightarrow>
                if sys_platform = ''msys'' then Inr MSYSConfig else Inr Config))"

section \<open>Paths and numbers\<close>

text \<open>
  \<open>os.path.join(a, b)\<close> and \<open>os.path.dirname(p)\<close> of \<open>posixpath\<close>, the
  \<open>os.path\<close> of every platform whose \<open>os.name\<close> is not \<open>nt\<close>.
\<close>

definition posix_join :: "string \<Rightarrow> string \<Rightarrow> string" where
  "posix_join a b =
     (if startswith b ''/'' then b
      else if a = [] \<or> last a = CHR ''/'' then a @ b
      else a @ ''/'' @ b)"

definition rstrip_slash :: "string \<Rightarrow> string" where
  "rstrip_slash s = rev (dropWhile (\<lambda>c. c = CHR ''/'') (rev s))"

definition posix_dirname :: "string \<Rightarrow> string" where
  "posix_dirname p =
     (let head = rev (dropWhile (\<lambda>c. c \<noteq> CHR ''/'') (rev p))
      in if head \<noteq> [] \<and> \<not> list_all (\<lambda>c. c = CHR ''/'') head then rstrip_slash head
         else head)"

text \<open>\<open>'%d' % n\<close> for a natural number.\<close>

definition digit_char :: "nat \<Rightarrow> char" where
  "digit_char d = ''0123456789'' ! d"

function decimal :: "nat \<Rightarrow> string" where
  "decimal n = (if n < 10 then [digit_char n] else decimal (n div 10) @ [digit_char (n mod 10)])"
  by pat_completeness auto
termination
  by (relation "measure id") auto

declare decimal.simps [simp del]

section \<open>The process and its host\<close>

text \<open>
  An \<open>Extension\<close> as \<open>make_extension\<close> builds it.
\<close>

record extension =
  ext_name :: string
  sources :: "string list"
  extra_link_args :: "string list"
  extra_compile_args :: "string list"
  ext_library_dirs :: "string list"
  ext_libraries :: "string list"
  include_dirs :: "string list"

text \<open>
  What the script mutates while it runs: \<open>os.environ\<close>, the lines printed on standard
  output, and the module-level list \<open>ENUM_EXTS\<close>.
\<close>

record process =
  environ :: "string \<Rightarrow> string option"
  stdout :: "string list"
  ENUM_EXTS :: "extension list"

text \<open>
  What the script asks of its host. \<open>check_output\<close> is the decoded output of
  \<open>subprocess.check_output(cmd, shell=True)\<close>; \<open>CDLL\<close> loads a shared library and
  gives the set of names \<open>hasattr\<close> finds on the handle; \<open>ARCH\<close> is the pointer width
  the script computes from \<open>sys.maxsize\<close>.
\<close>

record host =
  path_exists :: "string \<Rightarrow> bool"
  check_output :: "string \<Rightarrow> error + string"
  shlex_split :: "string \<Rightarrow> error + string list"
  CDLL :: "string \<Rightarrow> error + string set"
  find_library :: "string \<Rightarrow> string option"
  sys_prefix :: string
  pathsep :: string
  ARCH :: nat

text \<open>Sequencing of computations that may raise.\<close>

definition and_then :: "error + 'a \<Rightarrow> ('a \<Rightarrow> error + 'b) \<Rightarrow> error + 'b" where
  "and_then m f = (case m of Inl e \<Rightarrow> Inl e | Inr x \<Rightarrow> f x)"

definition get_output :: "host \<Rightarrow> string \<Rightarrow> error + string" where
  "get_output h cmd = and_then (check_output h cmd) (\<lambda>decoded. Inr (strip decoded))"

section \<open>Config\<close>

record config =
  library_dirs :: "string list"
  libraries :: "string list"
  link_args :: "string list"
  compile_args :: "string list"
  enable_support_detect :: bool
  gssapi_lib :: "string set option"

text \<open>The value of a default-arguments member: "String or list of strings".\<close>

datatype arg_value = Str string | Lst "string list"

definition shsplit :: "host \<Rightarrow> arg_value \<Rightarrow> error + string list" where
  "shsplit h v = (case v of Lst l \<Rightarrow> Inr l | Str s \<Rightarrow> shlex_split h s)"

text \<open>
  \<open>os.environ.get(key) or default\<close>: the default is evaluated only when the variable
  is unset or empty.
\<close>

definition environ_or :: "process \<Rightarrow> string \<Rightarrow> error + arg_value \<Rightarrow> error + arg_value" where
  "environ_or st key dflt =
     (case environ st key of
        None \<Rightarrow> dflt
      | Some v \<Rightarrow> if v = [] then dflt else Inr (Str v))"

text \<open>
  The members a subclass of \<open>Config\<close> overrides. \<open>prefix_of\<close> gives the prefix and the
  lines it prints; \<open>gssapi_lib_path\<close> reads \<open>self.link_args\<close> and
  \<open>self.libraries\<close> and may change the process.
\<close>

record members =
  default_link_args :: "host \<Rightarrow> error + arg_value"
  default_compile_args :: "host \<Rightarrow> error + arg_value"
  prefix_of :: "host \<Rightarrow> string \<times> string list"
  gssapi_lib_path ::
    "host \<Rightarrow> string list \<Rightarrow> string list \<Rightarrow> process \<Rightarrow> error + (string option \<times> process)"

text \<open>Lines 72 and 73: the capability-detection gate.\<close>

definition support_detect_enabled :: "(string \<Rightarrow> string option) \<Rightarrow> bool" where
  "support_detect_enabled env =
     (lower (case env ''GSSAPI_SUPPORT_DETECT'' of None \<Rightarrow> ''true'' | Some v \<Rightarrow> v) = ''true'')"

definition no_main_lib_message :: string where
  "no_main_lib_message =
     ''Could not find main GSSAPI shared library. Please '' @
     ''try setting GSSAPI_MAIN_LIB yourself or '' @
     ''setting ENABLE_SUPPORT_DETECTION to '' @ [CHR 0x27] @ ''false'' @ [CHR 0x27]"

text \<open>Lines 75 to 89: the library handle.\<close>

definition load_gssapi_lib ::
  "host \<Rightarrow> members \<Rightarrow> bool \<Rightarrow> string list \<Rightarrow> string list \<Rightarrow> process
     \<Rightarrow> error + (string set option \<times> process)" where
  "load_gssapi_lib h m enabled largs libs st =
     (if enabled then
        and_then
          (case environ st ''GSSAPI_MAIN_LIB'' of
             Some v \<Rightarrow> Inr (Some v, st)
           | None \<Rightarrow> gssapi_lib_path m h largs libs st)
          (\<lambda>(main_lib, st').
             case main_lib of
               None \<Rightarrow> Inl (Exception no_main_lib_message)
             | Some path \<Rightarrow> and_then (CDLL h path) (\<lambda>syms. Inr (Some syms, st')))
      else Inr (None, st))"

text \<open>\<open>Config.__init__\<close>.\<close>

definition Config_init :: "host \<Rightarrow> members \<Rightarrow> process \<Rightarrow> error + (config \<times> process)" where
  "Config_init h m st =
     and_then (and_then (environ_or st ''GSSAPI_LINKER_ARGS'' (default_link_args m h)) (shsplit h))
       (\<lambda>tokens.
          case partition_link_args tokens ([], [], []) of
            (dirs, libs, largs) \<Rightarrow>
     and_then (and_then (environ_or st ''GSSAPI_COMPILER_ARGS'' (default_compile_args m h)) (shsplit h))
       (\<lambda>cargs.
          case prefix_of m h of
            (pfx, printed) \<Rightarrow>
          let st1 = st\<lparr>stdout := stdout st @ printed\<rparr>;
              ext_h = posix_join pfx ''include/gssapi/gssapi_ext.h'';
              cargs' = (if path_exists h ext_h then cargs @ [''-DHAS_GSSAPI_EXT_H''] else cargs);
              enabled = support_detect_enabled (environ st1)
          in and_then (load_gssapi_lib h m enabled largs libs st1)
               (\<lambda>(lib, st2).
                  Inr (\<lparr>library_dirs = dirs, libraries = libs, link_args = largs,
                        compile_args = cargs', enable_support_detect = enabled,
                        gssapi_lib = lib\<rparr>, st2))))"

subsection \<open>The members of the base class\<close>

definition prefix_warning :: "string \<Rightarrow> string" where
  "prefix_warning p =
     py_format (''WARNING: couldn'' @ [CHR 0x27] @ ''t find krb5-config; assuming prefix of %s'') p"

definition Config_prefix :: "host \<Rightarrow> string \<times> string list" where
  "Config_prefix h =
     (case get_output h ''krb5-config gssapi --prefix'' of
        Inr p \<Rightarrow> (p, [])
      | Inl e \<Rightarrow> (sys_prefix h, [prefix_warning (sys_prefix h)]))"

text \<open>
  \<open>next((o[4:] for o in self.link_args if o.startswith('-Wl,/')), '')\<close>.
\<close>

fun linker_main_path :: "string list \<Rightarrow> string" where
  "linker_main_path [] = []"
| "linker_main_path (opt # rest) =
     (if startswith opt ''-Wl,/'' then drop 4 opt else linker_main_path rest)"

fun first_gssapi_library :: "string list \<Rightarrow> string option" where
  "first_gssapi_library [] = None"
| "first_gssapi_library (opt # rest) =
     (if startswith opt ''gssapi'' then Some opt else first_gssapi_library rest)"

definition Config_gssapi_lib_path ::
  "host \<Rightarrow> string list \<Rightarrow> string list \<Rightarrow> process \<Rightarrow> error + (string option \<times> process)" where
  "Config_gssapi_lib_path h largs libs st =
     Inr (map_option (\<lambda>opt. posix_join (linker_main_path largs) (py_format ''lib%s.so'' opt))
            (first_gssapi_library libs), st)"

definition Config_members :: members where
  "Config_members =
     \<lparr>default_link_args =
        (\<lambda>h. and_then (get_output h ''krb5-config --libs gssapi'') (\<lambda>s. Inr (Str s))),
      default_compile_args =
        (\<lambda>h. and_then (get_output h ''krb5-config --cflags gssapi'') (\<lambda>s. Inr (Str s))),
      prefix_of = Config_prefix,
      gssapi_lib_path = Config_gssapi_lib_path\<rparr>"

subsection \<open>DarwinGSSFrameWorkConfig\<close>

definition DarwinGSSFrameWorkConfig_members :: members where
  "DarwinGSSFrameWorkConfig_members =
     Config_members
       \<lparr>default_link_args := (\<lambda>h. Inr (Lst [''-framework'', ''GSS''])),
        default_compile_args :=
          (\<lambda>h. Inr (Lst [''-framework'', ''GSS'', ''-DOSX_HAS_GSS_FRAMEWORK''])),
        gssapi_lib_path := (\<lambda>h largs libs st. Inr (find_library h ''GSS'', st))\<rparr>"

subsection \<open>MSYSConfig\<close>

text \<open>
  The property \<open>_gssapi_lib_path\<close> of plain msys (no \<open>MINGW_PREFIX\<close>).
  \<open>os.environ['PATH'] += ...\<close> reads the variable first, a \<open>KeyError\<close> when it is unset.
\<close>

definition MSYSConfig_gssapi_lib_path ::
  "host \<Rightarrow> string list \<Rightarrow> string list \<Rightarrow> process \<Rightarrow> error + (string option \<times> process)" where
  "MSYSConfig_gssapi_lib_path h largs libs st =
     (let main_lib = ''/mingw'' @ decimal (ARCH h) @ ''/bin/libgss-3.dll''
      in if path_exists h main_lib then
           (case environ st ''PATH'' of
              None \<Rightarrow> Inl (KeyError ''PATH'')
            | Some path \<Rightarrow>
                Inr (Some main_lib,
                     st\<lparr>environ :=
                          (environ st)(''PATH'' \<mapsto> path @ pathsep h @ posix_dirname main_lib)\<rparr>))
         else Inr (None, st))"

text \<open>
  The class body runs once, when the class is defined: \<open>env\<close> is \<open>os.environ\<close> at that
  moment. A set, non-empty \<open>MINGW_PREFIX\<close> fixes three class attributes.
\<close>

definition MSYSConfig_members :: "(string \<Rightarrow> string option) \<Rightarrow> members" where
  "MSYSConfig_members env =
     (case env ''MINGW_PREFIX'' of
        None \<Rightarrow> Config_members\<lparr>gssapi_lib_path := MSYSConfig_gssapi_lib_path\<rparr>
      | Some root \<Rightarrow>
          if root = [] then Config_members\<lparr>gssapi_lib_path := MSYSConfig_gssapi_lib_path\<rparr>
          else Config_members
                 \<lparr>default_link_args := (\<lambda>h. Inr (Lst [''-lgss''])),
                  default_compile_args := (\<lambda>h. Inr (Lst [''-fPIC''])),
                  gssapi_lib_path :=
                    (\<lambda>h largs libs st. Inr (Some (root @ ''/bin/libgss-3.dll''), st))\<rparr>)"

definition MSYSConfig_init ::
  "host \<Rightarrow> (string \<Rightarrow> string option) \<Rightarrow> process \<Rightarrow> error + (config \<times> process)" where
  "MSYSConfig_init h env st =
     and_then (Config_init h (MSYSConfig_members env) st)
       (\<lambda>(cfg, st'). Inr (cfg\<lparr>compile_args := compile_args cfg @ [''-D__MSYS__'']\<rparr>, st'))"

section \<open>Extension modules\<close>

text \<open>
  \<open>Config.make_extension\<close>. \<open>exists\<close> is \<open>os.path.exists\<close>, \<open>ext\<close> the value of
  \<open>SOURCE_EXT\<close>, \<open>incl\<close> the \<open>include_dirs\<close> keyword (empty when not given).
\<close>

definition make_extension ::
  "(string \<Rightarrow> bool) \<Rightarrow> string \<Rightarrow> config \<Rightarrow> string \<Rightarrow> string \<Rightarrow> string list
     \<Rightarrow> error + extension" where
  "make_extension exists ext cfg name_fmt module incl =
     (let source = py_format (replace_dots name_fmt) module @ ''.'' @ ext
      in if \<not> exists source then Inl (OSError source)
         else Inr \<lparr>ext_name = py_format name_fmt module,
                   sources = [source],
                   extra_link_args = link_args cfg,
                   extra_compile_args = compile_args cfg,
                   ext_library_dirs = library_dirs cfg,
                   ext_libraries = libraries cfg,
                   include_dirs = incl\<rparr>)"

definition main_file ::
  "(string \<Rightarrow> bool) \<Rightarrow> string \<Rightarrow> config \<Rightarrow> string \<Rightarrow> error + extension" where
  "main_file exists ext cfg module = make_extension exists ext cfg ''gssapi.raw.%s'' module []"

text \<open>
  \<open>hasattr(config.gssapi_lib, canary)\<close>: \<open>None\<close> has no attribute of a symbol's name.
\<close>

definition hasattr :: "string set option \<Rightarrow> string \<Rightarrow> bool" where
  "hasattr lib canary = (case lib of None \<Rightarrow> False | Some syms \<Rightarrow> canary \<in> syms)"

definition skip_message :: "string \<Rightarrow> string" where
  "skip_message module =
     py_format (''Skipping the %s extension because it '' @
                ''is not supported by your GSSAPI implementation...'') module"

text \<open>
  The \<open>try\<close> block of \<open>extension_file\<close>: the enum extension is appended to
  \<open>ENUM_EXTS\<close>, and an \<open>OSError\<close> is passed over.
\<close>

definition try_enum_extension ::
  "(string \<Rightarrow> bool) \<Rightarrow> string \<Rightarrow> config \<Rightarrow> string \<Rightarrow> process \<Rightarrow> error + process" where
  "try_enum_extension exists ext cfg module st =
     (case make_extension exists ext cfg ''gssapi.raw._enum_extensions.ext_%s'' module
             [''gssapi/raw/''] of
        Inr e \<Rightarrow> Inr (st\<lparr>ENUM_EXTS := ENUM_EXTS st @ [e]\<rparr>)
      | Inl (OSError p) \<Rightarrow> Inr st
      | Inl e \<Rightarrow> Inl e)"

text \<open>\<open>extension_file\<close>: \<open>None\<close> is the bare \<open>return\<close> of a skipped module.\<close>

definition extension_file ::
  "(string \<Rightarrow> bool) \<Rightarrow> string \<Rightarrow> config \<Rightarrow> string \<Rightarrow> string \<Rightarrow> process
     \<Rightarrow> error + (extension option \<times> process)" where
  "extension_file exists ext cfg module canary st =
     (if enable_support_detect cfg \<and> \<not> hasattr (gssapi_lib cfg) canary
      then Inr (None, st\<lparr>stdout := stdout st @ [skip_message module]\<rparr>)
      else and_then (try_enum_extension exists ext cfg module st)
             (\<lambda>st'. and_then (make_extension exists ext cfg ''gssapi.raw.ext_%s'' module [])
                       (\<lambda>x. Inr (Some x, st'))))"

text \<open>
  A list display or a generator of calls that may raise: the calls run from left to
  right and the first exception ends the evaluation.
\<close>

fun each :: "('a \<Rightarrow> error + 'b) \<Rightarrow> 'a list \<Rightarrow> error + 'b list" where
  "each f [] = Inr []"
| "each f (x # xs) = and_then (f x) (\<lambda>y. and_then (each f xs) (\<lambda>ys. Inr (y # ys)))"

fun extension_files ::
  "(string \<Rightarrow> bool) \<Rightarrow> string \<Rightarrow> config \<Rightarrow> (string \<times> string) list \<Rightarrow> process
     \<Rightarrow> error + (extension option list \<times> process)" where
  "extension_files exists ext cfg [] st = Inr ([], st)"
| "extension_files exists ext cfg ((module, canary) # rest) st =
     and_then (extension_file exists ext cfg module canary st)
       (\<lambda>(x, st'). and_then (extension_files exists ext cfg rest st')
                      (\<lambda>(xs, st''). Inr (x # xs, st'')))"

text \<open>\<open>[mod for mod in lst if mod is not None]\<close>.\<close>

fun not_none :: "'a option list \<Rightarrow> 'a list" where
  "not_none [] = []"
| "not_none (None # ms) = not_none ms"
| "not_none (Some m # ms) = m # not_none ms"

text \<open>\<open>os.environ.get('GSSAPI_MECHS', 'krb5').split(',')\<close>.\<close>

definition mechs :: "process \<Rightarrow> string list" where
  "mechs st =
     split_char CHR '','' (case environ st ''GSSAPI_MECHS'' of None \<Rightarrow> ''krb5'' | Some v \<Rightarrow> v)"

definition gssapi_modules ::
  "(string \<Rightarrow> bool) \<Rightarrow> string \<Rightarrow> config \<Rightarrow> extension option list \<Rightarrow> process
     \<Rightarrow> error + extension list" where
  "gssapi_modules exists ext cfg lst st =
     (let res = not_none lst
      in and_then (each (\<lambda>mech. make_extension exists ext cfg ''gssapi.raw.mech_%s'' mech [])
                     (mechs st))
           (\<lambda>ms. Inr (res @ ms @ ENUM_EXTS st)))"

text \<open>
  The \<open>ext_modules\<close> argument of the call of \<open>setup\<close>, for a catalogue of
  \<open>main_file\<close> modules followed by \<open>extension_file\<close> modules with their canaries.
  The list display is evaluated before \<open>gssapi_modules\<close> is called.
\<close>

definition ext_modules ::
  "(string \<Rightarrow> bool) \<Rightarrow> string \<Rightarrow> config \<Rightarrow> string list \<Rightarrow> (string \<times> string) list \<Rightarrow> process
     \<Rightarrow> error + (extension list \<times> process)" where
  "ext_modules exists ext cfg core optional st =
     and_then (each (main_file exists ext cfg) core)
       (\<lambda>cs. and_then (extension_files exists ext cfg optional st)
                (\<lambda>(xs, st'). and_then (gssapi_modules exists ext cfg (map Some cs @ xs) st')
                                (\<lambda>units. Inr (units, st'))))"

text \<open>The catalogue of setup.py, lines 370 to 397.\<close>

definition MAIN_FILES :: "string list" where
  "MAIN_FILES =
     [''misc'', ''exceptions'', ''creds'', ''names'', ''sec_contexts'', ''types'', ''message'',
      ''oids'', ''cython_converters'', ''chan_bindings'']"

definition EXTENSION_FILES :: "(string \<times> string) list" where
  "EXTENSION_FILES =
     [(''s4u'', ''gss_acquire_cred_impersonate_name''),
      (''cred_store'', ''gss_store_cred_into''),
      (''rfc5587'', ''gss_indicate_mechs_by_attrs''),
      (''rfc5588'', ''gss_store_cred''),
      (''rfc5801'', ''gss_inquire_saslname_for_mech''),
      (''cred_imp_exp'', ''gss_import_cred''),
      (''dce'', ''gss_wrap_iov''),
      (''iov_mic'', ''gss_get_mic_iov''),
      (''ggf'', ''gss_inquire_sec_context_by_oid''),
      (''set_cred_opt'', ''gss_set_cred_option''),
      (''rfc6680'', ''gss_display_name_ext''),
      (''rfc6680_comp_oid'', ''GSS_C_NT_COMPOSITE_EXPORT''),
      (''password'', ''gss_acquire_cred_with_password''),
      (''password_add'', ''gss_add_cred_with_password'')]"

text \<open>
  The build units of a run of setup.py: \<open>ENUM_EXTS\<close> is empty when the argument is
  evaluated.
\<close>

definition setup_ext_modules ::
  "(string \<Rightarrow> bool) \<Rightarrow> string \<Rightarrow> config \<Rightarrow> process \<Rightarrow> error + (extension list \<times> process)" where
  "setup_ext_modules exists ext cfg st =
     ext_modules exists ext cfg MAIN_FILES EXTENSION_FILES (st\<lparr>ENUM_EXTS := []\<rparr>)"

section \<open>Notions used in the statements\<close>

text \<open>
  "OS version at least 10.7": the version with the components it does not give read as
  zero, compared with 10.7.0.
\<close>

definition version_at_least_10_7 :: "int list \<Rightarrow> bool" where
  "version_at_least_10_7 vs = list_ge (vs @ replicate (3 - length vs) 0) [10, 7, 0]"

text \<open>
  A build unit of configuration \<open>cfg\<close>: its qualified name, its source path without
  the extension, and its include directories.
\<close>

definition build_unit :: "config \<Rightarrow> string \<Rightarrow> string \<Rightarrow> string \<Rightarrow> string list \<Rightarrow> extension" where
  "build_unit cfg ext qualified path incl =
     \<lparr>ext_name = qualified, sources = [path @ ''.'' @ ext],
      extra_link_args = link_args cfg, extra_compile_args = compile_args cfg,
      ext_library_dirs = library_dirs cfg, ext_libraries = libraries cfg,
      include_dirs = incl\<rparr>"

definition core_unit :: "config \<Rightarrow> string \<Rightarrow> string \<Rightarrow> extension" where
  "core_unit cfg ext m = build_unit cfg ext (''gssapi.raw.'' @ m) (''gssapi/raw/'' @ m) []"

definition optional_unit :: "config \<Rightarrow> string \<Rightarrow> string \<Rightarrow> extension" where
  "optional_unit cfg ext m =
     build_unit cfg ext (''gssapi.raw.ext_'' @ m) (''gssapi/raw/ext_'' @ m) []"

definition companion_unit :: "config \<Rightarrow> string \<Rightarrow> string \<Rightarrow> extension" where
  "companion_unit cfg ext m =
     build_unit cfg ext (''gssapi.raw._enum_extensions.ext_'' @ m)
       (''gssapi/raw/_enum_extensions/ext_'' @ m) [''gssapi/raw/'']"

definition mech_unit :: "config \<Rightarrow> string \<Rightarrow> string \<Rightarrow> extension" where
  "mech_unit cfg ext m =
     build_unit cfg ext (''gssapi.raw.mech_'' @ m) (''gssapi/raw/mech_'' @ m) []"

text \<open>
  An optional module is built when the gate is disabled or the probe reports its gating
  symbol.
\<close>

definition supported :: "config \<Rightarrow> string \<Rightarrow> bool" where
  "supported cfg canary = (\<not> enable_support_detect cfg \<or> hasattr (gssapi_lib cfg) canary)"

section \<open>Example inputs\<close>

text \<open>
  A host without \<open>krb5-config\<close> on which every path exists and one library can be
  loaded, a process with a given environment, a configuration with detection
  disabled, and one whose library has two of the gating symbols.
\<close>

definition example_host :: host where
  "example_host =
     \<lparr>path_exists = (\<lambda>p. True),
      check_output = (\<lambda>cmd. Inl (CalledProcessError cmd)),
      shlex_split = (\<lambda>s. Inr (filter (\<lambda>w. w \<noteq> []) (split_char CHR '' '' s))),
      CDLL = (\<lambda>path. if path = ''libgssapi_krb5.so''
                      then Inr {''gss_wrap_iov'', ''gss_store_cred''}
                      else Inl (OSError path)),
      find_library = (\<lambda>n. None),
      sys_prefix = ''/usr'',
      pathsep = '':'',
      ARCH = 64\<rparr>"

definition example_process :: "(string \<Rightarrow> string option) \<Rightarrow> process" where
  "example_process env = \<lparr>environ = env, stdout = [], ENUM_EXTS = []\<rparr>"

definition example_config :: config where
  "example_config =
     \<lparr>library_dirs = [''/a''], libraries = [''foo''], link_args = [''-Wl,-rpath,/b''],
      compile_args = [], enable_support_detect = False, gssapi_lib = None\<rparr>"

definition example_probing_config :: config where
  "example_probing_config =
     example_config\<lparr>enable_support_detect := True,
                    gssapi_lib := Some {''gss_wrap_iov'', ''gss_store_cred''}\<rparr>"

section \<open>Helper facts\<close>

lemma and_then_Inr [simp]: "and_then (Inr x) f = f x"
  by (simp add: and_then_def)

lemma and_then_Inl [simp]: "and_then (Inl e) f = Inl e"
  by (simp add: and_then_def)

lemmas py_int_defs =
  py_int_def int_strip_def is_int_space_def unsigned_value_def exceeds_digit_limit_def
  is_digit_def digit_val_def

section \<open>Linker tokens\<close>

lemma startswith_L_not_l: "startswith t ''-L'' \<Longrightarrow> \<not> startswith t ''-l''"
  by (auto simp: startswith_def)

lemma partition_link_args_acc:
  "partition_link_args toks (dirs, libs, largs) =
     (dirs @ map (drop 2) (filter (\<lambda>t. startswith t ''-L'') toks),
      libs @ map (drop 2) (filter (\<lambda>t. startswith t ''-l'') toks),
      largs @ filter (\<lambda>t. \<not> startswith t ''-L'' \<and> \<not> startswith t ''-l'') toks)"
  by (induction toks arbitrary: dirs libs largs) (auto dest: startswith_L_not_l)

text \<open>
  The three list fields of a constructed configuration are the result of the loop on the
  raw linker tokens.
\<close>

lemma Config_init_link_fields:
  assumes "Config_init h m st = Inr (cfg, st')"
  shows "\<exists>toks. and_then (environ_or st ''GSSAPI_LINKER_ARGS'' (default_link_args m h)) (shsplit h)
                  = Inr toks
               \<and> (library_dirs cfg, libraries cfg, link_args cfg)
                  = partition_link_args toks ([], [], [])"
  using assms unfolding Config_init_def
  by (auto simp: and_then_def Let_def split: sum.splits prod.splits)

text \<open>
  C1. For every list of raw linker tokens the loop of \<open>Config.__init__\<close> sorts each
  token into exactly one of three lists by its prefix: the tokens that start with
  \<open>-L\<close> give \<open>library_dirs\<close> (without the two characters), the tokens that start
  with \<open>-l\<close> give \<open>libraries\<close> (without the two characters), all others give
  \<open>link_args\<close> unchanged, each list in the order of first appearance; the three
  lists together have as many entries as there are tokens. The tokens \<open>-L/a\<close>,
  \<open>-lfoo\<close>, \<open>-Wl,-rpath,/b\<close> give \<open>["/a"]\<close>, \<open>["foo"]\<close> and
  \<open>["-Wl,-rpath,/b"]\<close>.
\<close>

theorem partition_link_args_by_prefix:
  "partition_link_args toks ([], [], []) =
     (map (drop 2) (filter (\<lambda>t. startswith t ''-L'') toks),
      map (drop 2) (filter (\<lambda>t. startswith t ''-l'') toks),
      filter (\<lambda>t. \<not> startswith t ''-L'' \<and> \<not> startswith t ''-l'') toks)
   \<and> length (filter (\<lambda>t. startswith t ''-L'') toks)
       + length (filter (\<lambda>t. startswith t ''-l'') toks)
       + length (filter (\<lambda>t. \<not> startswith t ''-L'' \<and> \<not> startswith t ''-l'') toks)
       = length toks
   \<and> partition_link_args [''-L/a'', ''-lfoo'', ''-Wl,-rpath,/b''] ([], [], [])
       = ([''/a''], [''foo''], [''-Wl,-rpath,/b''])"
proof (intro conjI)
  show "partition_link_args toks ([], [], []) =
     (map (drop 2) (filter (\<lambda>t. startswith t ''-L'') toks),
      map (drop 2) (filter (\<lambda>t. startswith t ''-l'') toks),
      filter (\<lambda>t. \<not> startswith t ''-L'' \<and> \<not> startswith t ''-l'') toks)"
    by (simp add: partition_link_args_acc)
  show "length (filter (\<lambda>t. startswith t ''-L'') toks)
       + length (filter (\<lambda>t. startswith t ''-l'') toks)
       + length (filter (\<lambda>t. \<not> startswith t ''-L'' \<and> \<not> startswith t ''-l'') toks)
       = length toks"
    by (induction toks) (auto dest: startswith_L_not_l)
  show "partition_link_args [''-L/a'', ''-lfoo'', ''-Wl,-rpath,/b''] ([], [], [])
       = ([''/a''], [''foo''], [''-Wl,-rpath,/b''])"
    by (simp add: startswith_def)
qed

section \<open>The source format\<close>



section \<open>Choice of the platform configuration\<close>

text \<open>What \<open>int()\<close> accepts and what it refuses, on small literals.\<close>

lemma py_int_examples:
  "py_int 4300 '' 10 '' = Some 10"
  "py_int 4300 ''+7'' = Some 7"
  "py_int 4300 ''-5'' = Some (- 5)"
  "py_int 4300 ''007'' = Some 7"
  "py_int 4300 ''1_0'' = Some 10"
  "py_int 4300 ''1__0'' = None"
  "py_int 4300 ''_1'' = None"
  "py_int 4300 ''1_'' = None"
  "py_int 4300 ''- 1'' = None"
  "py_int 4300 ''0x10'' = None"
  "py_int 4300 ''7a'' = None"
  "py_int 4300 '''' = None"
  "py_int 4300 (CHR 0x1C # ''10'') = None"
  "py_int 4300 (''10'' @ [CHR 0x1F]) = None"
  by (simp_all add: py_int_defs)

text \<open>
  The digit limit at work: a literal of zeros is refused exactly when it has more than 640
  digits and more digits than a limit that is switched on.
\<close>

lemma unsigned_value_limit:
  "exceeds_digit_limit max_str_digits body \<Longrightarrow> unsigned_value max_str_digits body = None"
  by (simp add: unsigned_value_def split: list.splits)

lemma digits_value_zeros: "digits_value acc (replicate n CHR ''0'') = Some (acc * 10 ^ n)"
proof (induction n arbitrary: acc)
  case 0
  then show ?case by simp
next
  case (Suc n)
  show ?case
  proof (cases n)
    case 0
    then show ?thesis by (simp add: is_digit_def digit_val_def)
  next
    case (Suc k)
    with Suc.IH [of "10 * acc"] show ?thesis by (simp add: is_digit_def digit_val_def)
  qed
qed

lemma int_strip_zeros: "int_strip (replicate (Suc n) CHR ''0'') = replicate (Suc n) CHR ''0''"
  by (simp add: int_strip_def is_int_space_def del: replicate.simps)

lemma py_int_zeros:
  "py_int max_str_digits (replicate (Suc n) CHR ''0'') =
     (if 640 < Suc n \<and> 0 < max_str_digits \<and> max_str_digits < Suc n then None else Some 0)"
proof -
  have digits: "length (filter is_digit (CHR ''0'' # replicate n CHR ''0'')) = Suc n"
    by (simp add: is_digit_def)
  have zero: "digits_value 0 (CHR ''0'' # replicate n CHR ''0'') = Some 0"
    using digits_value_zeros [of 0 "Suc n"] by simp
  have "unsigned_value max_str_digits (CHR ''0'' # replicate n CHR ''0'') =
     (if 640 < Suc n \<and> 0 < max_str_digits \<and> max_str_digits < Suc n then None else Some 0)"
    unfolding unsigned_value_def exceeds_digit_limit_def digits zero
    by (simp add: is_digit_def)
  then show ?thesis
    unfolding py_int_def int_strip_zeros by simp
qed

text \<open>
  The comparison of the script agrees with the comparison of zero-padded versions on
  every version but the two-component \<open>[10, 7]\<close>.
\<close>

lemma list_ge_padded:
  assumes ne: "vs \<noteq> [10, 7]"
  shows "list_ge vs [10, 7, 0] = version_at_least_10_7 vs"
proof (cases vs)
  case Nil
  then show ?thesis by (simp add: version_at_least_10_7_def numeral_3_eq_3)
next
  case (Cons a as)
  note c1 = Cons
  show ?thesis
  proof (cases as)
    case Nil
    with c1 show ?thesis by (simp add: version_at_least_10_7_def numeral_3_eq_3)
  next
    case (Cons b bs)
    note c2 = Cons
    show ?thesis
    proof (cases bs)
      case Nil
      with c1 c2 ne show ?thesis by (simp add: version_at_least_10_7_def numeral_3_eq_3)
    next
      case (Cons c cs)
      with c1 c2 show ?thesis by (simp add: version_at_least_10_7_def)
    qed
  qed
qed

text \<open>
  C2, as stated, fails twice on darwin (with an \<open>os.name\<close> other than \<open>nt\<close>), here
  under the default digit limit: the version string \<open>10.7\<close> reads as \<open>[10, 7]\<close>,
  which Python orders before \<open>[10, 7, 0]\<close>, so the default variant is chosen and not
  the Darwin one; and the empty version string, which \<open>platform.mac_ver\<close> gives when
  it cannot tell the version, raises \<open>ValueError\<close> in \<open>int\<close>, so no variant is
  chosen.
\<close>

theorem select_config_counterexample:
  "select_config 4300 ''posix'' ''darwin'' ''10.7'' = Inr Config
   \<and> select_config 4300 ''posix'' ''darwin'' '''' = Inl ValueError"
  by (simp add: select_config_def darwin_has_framework_def py_int_defs)

text \<open>
  C2, amended. The Windows identifier selects the Windows variant. Otherwise, off darwin,
  the msys identifier selects the emulation variant and every other platform the default
  one; the version string is not read. Otherwise, on darwin, a version string that is not
  a dot-separated list of integers raises \<open>ValueError\<close> and selects nothing, and one
  that is selects one variant, the Darwin one or the default one: for every version but
  the two-component 10.7, the Darwin variant when the version is at least 10.7 and the
  default variant when it is not.
\<close>

theorem select_config_cases:
  "(os_name = ''nt'' \<longrightarrow>
      select_config max_str_digits os_name sys_platform mac_ver = Inr WindowsConfig)
   \<and> (os_name \<noteq> ''nt'' \<and> sys_platform \<noteq> ''darwin'' \<longrightarrow>
        select_config max_str_digits os_name sys_platform mac_ver
          = Inr (if sys_platform = ''msys'' then MSYSConfig else Config))
   \<and> (os_name \<noteq> ''nt'' \<and> sys_platform = ''darwin''
        \<and> ints_of max_str_digits (split_char CHR ''.'' mac_ver) = None \<longrightarrow>
        select_config max_str_digits os_name sys_platform mac_ver = Inl ValueError)
   \<and> (os_name \<noteq> ''nt'' \<and> sys_platform = ''darwin''
        \<and> ints_of max_str_digits (split_char CHR ''.'' mac_ver) = Some vs \<longrightarrow>
        select_config max_str_digits os_name sys_platform mac_ver = Inr DarwinGSSFrameWorkConfig
        \<or> select_config max_str_digits os_name sys_platform mac_ver = Inr Config)
   \<and> (os_name \<noteq> ''nt'' \<and> sys_platform = ''darwin''
        \<and> ints_of max_str_digits (split_char CHR ''.'' mac_ver) = Some vs \<and> vs \<noteq> [10, 7] \<longrightarrow>
        select_config max_str_digits os_name sys_platform mac_ver
          = Inr (if version_at_least_10_7 vs then DarwinGSSFrameWorkConfig else Config))"
proof (intro conjI impI)
  assume "os_name = ''nt''"
  then show "select_config max_str_digits os_name sys_platform mac_ver = Inr WindowsConfig"
    by (simp add: select_config_def)
next
  assume "os_name \<noteq> ''nt'' \<and> sys_platform \<noteq> ''darwin''"
  then show "select_config max_str_digits os_name sys_platform mac_ver
      = Inr (if sys_platform = ''msys'' then MSYSConfig else Config)"
    by (simp add: select_config_def darwin_has_framework_def)
next
  assume "os_name \<noteq> ''nt'' \<and> sys_platform = ''darwin''
      \<and> ints_of max_str_digits (split_char CHR ''.'' mac_ver) = None"
  then show "select_config max_str_digits os_name sys_platform mac_ver = Inl ValueError"
    by (simp add: select_config_def darwin_has_framework_def)
next
  assume "os_name \<noteq> ''nt'' \<and> sys_platform = ''darwin''
      \<and> ints_of max_str_digits (split_char CHR ''.'' mac_ver) = Some vs"
  then show "select_config max_str_digits os_name sys_platform mac_ver
        = Inr DarwinGSSFrameWorkConfig
      \<or> select_config max_str_digits os_name sys_platform mac_ver = Inr Config"
    by (cases "list_ge vs [10, 7, 0]")
       (simp_all add: select_config_def darwin_has_framework_def del: list_ge.simps)
next
  assume "os_name \<noteq> ''nt'' \<and> sys_platform = ''darwin''
      \<and> ints_of max_str_digits (split_char CHR ''.'' mac_ver) = Some vs \<and> vs \<noteq> [10, 7]"
  then show "select_config max_str_digits os_name sys_platform mac_ver
      = Inr (if version_at_least_10_7 vs then DarwinGSSFrameWorkConfig else Config)"
    by (simp add: select_config_def darwin_has_framework_def list_ge_padded del: list_ge.simps)
qed

theorem select_config_cases_witness:
  "select_config 4300 ''nt'' ''win32'' '''' = Inr WindowsConfig
   \<and> select_config 4300 ''posix'' ''msys'' '''' = Inr MSYSConfig
   \<and> select_config 4300 ''posix'' ''linux'' '''' = Inr Config
   \<and> select_config 4300 ''posix'' ''darwin'' ''unknown'' = Inl ValueError
   \<and> select_config 4300 ''posix'' ''darwin'' (CHR 0x1C # ''10.7.0'') = Inl ValueError
   \<and> select_config 4300 ''posix'' ''darwin'' ''10.7.0'' = Inr DarwinGSSFrameWorkConfig
   \<and> select_config 4300 ''posix'' ''darwin'' ''11.0'' = Inr DarwinGSSFrameWorkConfig
   \<and> select_config 0 ''posix'' ''darwin'' '' 12.6 '' = Inr DarwinGSSFrameWorkConfig
   \<and> select_config 4300 ''posix'' ''darwin'' ''10.6.8'' = Inr Config"
  using select_config_cases [where os_name = "''nt''" and max_str_digits = 4300
          and sys_platform = "''win32''" and mac_ver = "''''" and vs = "[]"]
        select_config_cases [where os_name = "''posix''" and max_str_digits = 4300
          and sys_platform = "''msys''" and mac_ver = "''''" and vs = "[]"]
        select_config_cases [where os_name = "''posix''" and max_str_digits = 4300
          and sys_platform = "''linux''" and mac_ver = "''''" and vs = "[]"]
        select_config_cases [where os_name = "''posix''" and max_str_digits = 4300
          and sys_platform = "''darwin''" and mac_ver = "''unknown''" and vs = "[]"]
        select_config_cases [where os_name = "''posix''" and max_str_digits = 4300
          and sys_platform = "''darwin''" and mac_ver = "CHR 0x1C # ''10.7.0''" and vs = "[]"]
        select_config_cases [where os_name = "''posix''" and max_str_digits = 4300
          and sys_platform = "''darwin''" and mac_ver = "''10.7.0''" and vs = "[10, 7, 0]"]
        select_config_cases [where os_name = "''posix''" and max_str_digits = 4300
          and sys_platform = "''darwin''" and mac_ver = "''11.0''" and vs = "[11, 0]"]
        select_config_cases [where os_name = "''posix''" and max_str_digits = 0
          and sys_platform = "''darwin''" and mac_ver = "'' 12.6 ''" and vs = "[12, 6]"]
        select_config_cases [where os_name = "''posix''" and max_str_digits = 4300
          and sys_platform = "''darwin''" and mac_ver = "''10.6.8''" and vs = "[10, 6, 8]"]
  by (simp add: py_int_defs version_at_least_10_7_def numeral_3_eq_3)

section \<open>The capability-detection gate\<close>

lemma and_then_eq_Inr: "and_then m f = Inr y \<longleftrightarrow> (\<exists>x. m = Inr x \<and> f x = Inr y)"
  by (cases m) (simp_all add: and_then_def)

lemma load_gssapi_lib_disabled:
  "load_gssapi_lib h m False largs libs st = Inr (None, st)"
  by (simp add: load_gssapi_lib_def)

lemma Config_init_gate:
  assumes "Config_init h m st = Inr (cfg, st')"
  shows "enable_support_detect cfg = support_detect_enabled (environ st)"
    and "\<not> enable_support_detect cfg \<Longrightarrow> gssapi_lib cfg = None"
proof -
  show "enable_support_detect cfg = support_detect_enabled (environ st)"
    using assms unfolding Config_init_def
    by (auto simp: and_then_eq_Inr Let_def case_prod_beta)
  assume "\<not> enable_support_detect cfg"
  with assms show "gssapi_lib cfg = None"
    unfolding Config_init_def
    by (auto simp: and_then_eq_Inr Let_def case_prod_beta load_gssapi_lib_disabled)
qed

text \<open>The values that lowercase to \<open>true\<close> are its sixteen spellings.\<close>

lemma lower_char_t: "lower_char c = CHR ''t'' \<longleftrightarrow> c = CHR ''t'' \<or> c = CHR ''T''"
  by (simp add: lower_char_def)

lemma lower_char_r: "lower_char c = CHR ''r'' \<longleftrightarrow> c = CHR ''r'' \<or> c = CHR ''R''"
  by (simp add: lower_char_def)

lemma lower_char_u: "lower_char c = CHR ''u'' \<longleftrightarrow> c = CHR ''u'' \<or> c = CHR ''U''"
  by (simp add: lower_char_def)

lemma lower_char_e: "lower_char c = CHR ''e'' \<longleftrightarrow> c = CHR ''e'' \<or> c = CHR ''E''"
  by (simp add: lower_char_def)

lemma lower_true_chars:
  "lower v = ''true'' \<longleftrightarrow>
     (\<exists>a b c d. v = [a, b, c, d] \<and> lower_char a = CHR ''t'' \<and> lower_char b = CHR ''r''
        \<and> lower_char c = CHR ''u'' \<and> lower_char d = CHR ''e'')"
  by (auto simp: lower_def map_eq_Cons_conv)

lemma lower_true_iff:
  "lower v = ''true'' \<longleftrightarrow>
     (\<exists>a b c d. v = [a, b, c, d] \<and> (a = CHR ''t'' \<or> a = CHR ''T'')
        \<and> (b = CHR ''r'' \<or> b = CHR ''R'') \<and> (c = CHR ''u'' \<or> c = CHR ''U'')
        \<and> (d = CHR ''e'' \<or> d = CHR ''E''))"
  by (simp only: lower_true_chars lower_char_t lower_char_r lower_char_u lower_char_e)

text \<open>A run of \<open>Config.__init__\<close> on the example host with the gate set to \<open>False\<close>.\<close>

lemma example_prefix:
  "prefix_of DarwinGSSFrameWorkConfig_members example_host = (''/usr'', [prefix_warning ''/usr''])"
  by (simp add: DarwinGSSFrameWorkConfig_members_def Config_members_def Config_prefix_def
      get_output_def example_host_def)

lemma example_link_tokens:
  "and_then (environ_or (example_process [''GSSAPI_SUPPORT_DETECT'' \<mapsto> ''False''])
       ''GSSAPI_LINKER_ARGS'' (default_link_args DarwinGSSFrameWorkConfig_members example_host))
     (shsplit example_host) = Inr [''-framework'', ''GSS'']"
  by (simp add: DarwinGSSFrameWorkConfig_members_def Config_members_def example_process_def
      environ_or_def shsplit_def)

lemma example_compile_tokens:
  "and_then (environ_or (example_process [''GSSAPI_SUPPORT_DETECT'' \<mapsto> ''False''])
       ''GSSAPI_COMPILER_ARGS'' (default_compile_args DarwinGSSFrameWorkConfig_members example_host))
     (shsplit example_host) = Inr [''-framework'', ''GSS'', ''-DOSX_HAS_GSS_FRAMEWORK'']"
  by (simp add: DarwinGSSFrameWorkConfig_members_def Config_members_def example_process_def
      environ_or_def shsplit_def)

lemma example_gate:
  "\<not> support_detect_enabled [''GSSAPI_SUPPORT_DETECT'' \<mapsto> ''False'']"
  by (simp add: support_detect_enabled_def lower_def lower_char_def)

lemma Config_init_example_disabled:
  "Config_init example_host DarwinGSSFrameWorkConfig_members
      (example_process [''GSSAPI_SUPPORT_DETECT'' \<mapsto> ''False''])
   = Inr (\<lparr>library_dirs = [], libraries = [], link_args = [''-framework'', ''GSS''],
           compile_args = [''-framework'', ''GSS'', ''-DOSX_HAS_GSS_FRAMEWORK'',
                           ''-DHAS_GSSAPI_EXT_H''],
           enable_support_detect = False, gssapi_lib = None\<rparr>,
          \<lparr>environ = [''GSSAPI_SUPPORT_DETECT'' \<mapsto> ''False''],
           stdout = [prefix_warning ''/usr''], ENUM_EXTS = []\<rparr>)"
  unfolding Config_init_def example_link_tokens example_compile_tokens
  by (simp add: startswith_def example_prefix load_gssapi_lib_def)
     (simp add: example_host_def example_process_def example_gate)

text \<open>
  C10. Detection is enabled exactly when \<open>GSSAPI_SUPPORT_DETECT\<close> is unset or its
  value, lowercased, is the string \<open>true\<close>; the values \<open>1\<close>, \<open>yes\<close> and \<open>True\<close>
  followed by a space disable it. A constructed configuration carries this decision, and
  when detection is disabled its library handle is \<open>None\<close>.
\<close>

theorem support_detect_gate:
  "(support_detect_enabled env \<longleftrightarrow>
      env ''GSSAPI_SUPPORT_DETECT'' = None
      \<or> (\<exists>v. env ''GSSAPI_SUPPORT_DETECT'' = Some v \<and> lower v = ''true''))
   \<and> \<not> support_detect_enabled (env(''GSSAPI_SUPPORT_DETECT'' \<mapsto> ''1''))
   \<and> \<not> support_detect_enabled (env(''GSSAPI_SUPPORT_DETECT'' \<mapsto> ''yes''))
   \<and> \<not> support_detect_enabled (env(''GSSAPI_SUPPORT_DETECT'' \<mapsto> ''True ''))
   \<and> (Config_init h m st = Inr (cfg, st') \<longrightarrow>
        enable_support_detect cfg = support_detect_enabled (environ st)
        \<and> (\<not> enable_support_detect cfg \<longrightarrow> gssapi_lib cfg = None))"
proof (intro conjI impI)
  show "support_detect_enabled env \<longleftrightarrow>
      env ''GSSAPI_SUPPORT_DETECT'' = None
      \<or> (\<exists>v. env ''GSSAPI_SUPPORT_DETECT'' = Some v \<and> lower v = ''true'')"
    by (cases "env ''GSSAPI_SUPPORT_DETECT''")
       (simp_all add: support_detect_enabled_def lower_def lower_char_def)
  show "\<not> support_detect_enabled (env(''GSSAPI_SUPPORT_DETECT'' \<mapsto> ''1''))"
    by (simp add: support_detect_enabled_def lower_def)
  show "\<not> support_detect_enabled (env(''GSSAPI_SUPPORT_DETECT'' \<mapsto> ''yes''))"
    by (simp add: support_detect_enabled_def lower_def)
  show "\<not> support_detect_enabled (env(''GSSAPI_SUPPORT_DETECT'' \<mapsto> ''True ''))"
    by (simp add: support_detect_enabled_def lower_def)
next
  assume "Config_init h m st = Inr (cfg, st')"
  then show "enable_support_detect cfg = support_detect_enabled (environ st)"
    by (rule Config_init_gate)
next
  assume "Config_init h m st = Inr (cfg, st')" and "\<not> enable_support_detect cfg"
  then show "gssapi_lib cfg = None"
    by (rule Config_init_gate)
qed

theorem support_detect_gate_witness:
  "\<not> support_detect_enabled [''GSSAPI_SUPPORT_DETECT'' \<mapsto> ''False'']
   \<and> support_detect_enabled Map.empty
   \<and> support_detect_enabled [''GSSAPI_SUPPORT_DETECT'' \<mapsto> ''TRUE'']
   \<and> map_sum id (\<lambda>(cfg, st'). (enable_support_detect cfg, gssapi_lib cfg))
       (Config_init example_host DarwinGSSFrameWorkConfig_members
          (example_process [''GSSAPI_SUPPORT_DETECT'' \<mapsto> ''False'']))
     = Inr (False, None)"
  using support_detect_gate [of "[''GSSAPI_SUPPORT_DETECT'' \<mapsto> ''False'']"
          example_host DarwinGSSFrameWorkConfig_members
          "example_process [''GSSAPI_SUPPORT_DETECT'' \<mapsto> ''False'']"
          "\<lparr>library_dirs = [], libraries = [], link_args = [''-framework'', ''GSS''],
            compile_args = [''-framework'', ''GSS'', ''-DOSX_HAS_GSS_FRAMEWORK'',
                            ''-DHAS_GSSAPI_EXT_H''],
            enable_support_detect = False, gssapi_lib = None\<rparr>"
          "\<lparr>environ = [''GSSAPI_SUPPORT_DETECT'' \<mapsto> ''False''],
            stdout = [prefix_warning ''/usr''], ENUM_EXTS = []\<rparr>"]
        support_detect_gate [of Map.empty example_host DarwinGSSFrameWorkConfig_members
          "example_process [''GSSAPI_SUPPORT_DETECT'' \<mapsto> ''False'']"
          "\<lparr>library_dirs = [], libraries = [], link_args = [''-framework'', ''GSS''],
            compile_args = [''-framework'', ''GSS'', ''-DOSX_HAS_GSS_FRAMEWORK'',
                            ''-DHAS_GSSAPI_EXT_H''],
            enable_support_detect = False, gssapi_lib = None\<rparr>"
          "\<lparr>environ = [''GSSAPI_SUPPORT_DETECT'' \<mapsto> ''False''],
            stdout = [prefix_warning ''/usr''], ENUM_EXTS = []\<rparr>"]
        support_detect_gate [of "[''GSSAPI_SUPPORT_DETECT'' \<mapsto> ''TRUE'']"
          example_host DarwinGSSFrameWorkConfig_members
          "example_process [''GSSAPI_SUPPORT_DETECT'' \<mapsto> ''False'']"
          "\<lparr>library_dirs = [], libraries = [], link_args = [''-framework'', ''GSS''],
            compile_args = [''-framework'', ''GSS'', ''-DOSX_HAS_GSS_FRAMEWORK'',
                            ''-DHAS_GSSAPI_EXT_H''],
            enable_support_detect = False, gssapi_lib = None\<rparr>"
          "\<lparr>environ = [''GSSAPI_SUPPORT_DETECT'' \<mapsto> ''False''],
            stdout = [prefix_warning ''/usr''], ENUM_EXTS = []\<rparr>"]
  by (simp add: Config_init_example_disabled lower_def lower_char_def)

section \<open>Library discovery on msys\<close>

lemma digit_char_no_slash: "d < 10 \<Longrightarrow> digit_char d \<noteq> CHR ''/''"
proof -
  assume "d < 10"
  then have "d \<in> {0, 1, 2, 3, 4, 5, 6, 7, 8, 9}" by auto
  then show ?thesis by (auto simp: digit_char_def)
qed

lemma decimal_no_slash: "CHR ''/'' \<notin> set (decimal n)"
proof (induction n rule: decimal.induct)
  case (1 n)
  show ?case
  proof (cases "n < 10")
    case True
    with digit_char_no_slash [of n] show ?thesis by (auto simp: decimal.simps [of n])
  next
    case False
    have "digit_char (n mod 10) \<noteq> CHR ''/''" by (rule digit_char_no_slash) simp
    with False "1.IH" show ?thesis by (auto simp: decimal.simps [of n])
  qed
qed

lemma posix_dirname_mingw:
  assumes "CHR ''/'' \<notin> set d"
  shows "posix_dirname (''/mingw'' @ d @ ''/bin/libgss-3.dll'') = ''/mingw'' @ d @ ''/bin''"
  using assms by (simp add: posix_dirname_def rstrip_slash_def Let_def)

lemma MSYSConfig_members_plain:
  "env ''MINGW_PREFIX'' = None \<or> env ''MINGW_PREFIX'' = Some [] \<Longrightarrow>
     gssapi_lib_path (MSYSConfig_members env) = MSYSConfig_gssapi_lib_path"
  by (auto simp: MSYSConfig_members_def)

lemma decimal_64: "decimal 64 = ''64''"
  by (simp add: decimal.simps digit_char_def)

text \<open>
  C9, as stated, fails: with \<open>PATH\<close> equal to \<open>/usr/bin\<close> on a 64-bit plain msys
  where \<open>/mingw64/bin/libgss-3.dll\<close> exists, the directory is put after the old search
  path, not before it.
\<close>

theorem MSYSConfig_prepend_counterexample:
  "map_sum id (\<lambda>(lib, st'). (lib, environ st' ''PATH''))
       (gssapi_lib_path (MSYSConfig_members Map.empty) example_host [] []
          (example_process [''PATH'' \<mapsto> ''/usr/bin'']))
     = Inr (Some ''/mingw64/bin/libgss-3.dll'', Some ''/usr/bin:/mingw64/bin'')
   \<and> ''/usr/bin:/mingw64/bin'' \<noteq> ''/mingw64/bin:/usr/bin''"
  by (simp add: MSYSConfig_members_def MSYSConfig_gssapi_lib_path_def example_host_def
      example_process_def decimal_64 posix_dirname_def rstrip_slash_def)

text \<open>
  C9, amended. On msys with \<open>MINGW_PREFIX\<close> unset or empty, discovery looks for
  \<open>/mingw<ARCH>/bin/libgss-3.dll\<close>. When the file exists and \<open>PATH\<close> is set, the
  path separator and the directory \<open>/mingw<ARCH>/bin\<close> are appended to \<open>PATH\<close>
  and the library path is returned; when the file exists and \<open>PATH\<close> is unset, reading
  it raises \<open>KeyError\<close>; when the file does not exist, the result is \<open>None\<close> and
  the process is unchanged.
\<close>

theorem MSYSConfig_appends_to_PATH:
  assumes "env ''MINGW_PREFIX'' = None \<or> env ''MINGW_PREFIX'' = Some []"
  shows "(path_exists h (''/mingw'' @ decimal (ARCH h) @ ''/bin/libgss-3.dll'')
            \<and> environ st ''PATH'' = Some path \<longrightarrow>
          gssapi_lib_path (MSYSConfig_members env) h largs libs st
            = Inr (Some (''/mingw'' @ decimal (ARCH h) @ ''/bin/libgss-3.dll''),
                   st\<lparr>environ := (environ st)
                        (''PATH'' \<mapsto> path @ pathsep h @ ''/mingw'' @ decimal (ARCH h) @ ''/bin'')\<rparr>))
       \<and> (path_exists h (''/mingw'' @ decimal (ARCH h) @ ''/bin/libgss-3.dll'')
            \<and> environ st ''PATH'' = None \<longrightarrow>
          gssapi_lib_path (MSYSConfig_members env) h largs libs st = Inl (KeyError ''PATH''))
       \<and> (\<not> path_exists h (''/mingw'' @ decimal (ARCH h) @ ''/bin/libgss-3.dll'') \<longrightarrow>
          gssapi_lib_path (MSYSConfig_members env) h largs libs st = Inr (None, st))"
  using posix_dirname_mingw [OF decimal_no_slash, of "ARCH h"]
  by (simp add: MSYSConfig_members_plain [of env, OF assms] MSYSConfig_gssapi_lib_path_def Let_def)

theorem MSYSConfig_appends_to_PATH_witness:
  "map_sum id (\<lambda>(lib, st'). (lib, environ st' ''PATH''))
       (gssapi_lib_path (MSYSConfig_members Map.empty) example_host [] []
          (example_process [''PATH'' \<mapsto> ''/usr/bin'']))
     = Inr (Some ''/mingw64/bin/libgss-3.dll'', Some ''/usr/bin:/mingw64/bin'')
   \<and> gssapi_lib_path (MSYSConfig_members Map.empty) example_host [] []
       (example_process Map.empty)
     = Inl (KeyError ''PATH'')
   \<and> map_sum id (\<lambda>(lib, st'). (lib, environ st' ''PATH''))
       (gssapi_lib_path (MSYSConfig_members Map.empty)
          (example_host\<lparr>path_exists := (\<lambda>p. False)\<rparr>) [] []
          (example_process [''PATH'' \<mapsto> ''/usr/bin'']))
     = Inr (None, Some ''/usr/bin'')"
  using MSYSConfig_appends_to_PATH [of Map.empty example_host
          "example_process [''PATH'' \<mapsto> ''/usr/bin'']" "''/usr/bin''" "[]" "[]"]
        MSYSConfig_appends_to_PATH [of Map.empty example_host
          "example_process Map.empty" "[]" "[]" "[]"]
        MSYSConfig_appends_to_PATH [of Map.empty "example_host\<lparr>path_exists := (\<lambda>p. False)\<rparr>"
          "example_process [''PATH'' \<mapsto> ''/usr/bin'']" "[]" "[]" "[]"]
  by (simp add: example_host_def example_process_def decimal_64)

section \<open>Extension modules\<close>

subsection \<open>One module\<close>

lemma main_file_eq:
  "main_file exists ext cfg m =
     (if exists (''gssapi/raw/'' @ m @ ''.'' @ ext) then Inr (core_unit cfg ext m)
      else Inl (OSError (''gssapi/raw/'' @ m @ ''.'' @ ext)))"
  by (simp add: main_file_def make_extension_def replace_dots_def core_unit_def build_unit_def)

lemma mech_extension_eq:
  "make_extension exists ext cfg ''gssapi.raw.mech_%s'' m [] =
     (if exists (''gssapi/raw/mech_'' @ m @ ''.'' @ ext) then Inr (mech_unit cfg ext m)
      else Inl (OSError (''gssapi/raw/mech_'' @ m @ ''.'' @ ext)))"
  by (simp add: make_extension_def replace_dots_def mech_unit_def build_unit_def)

lemma optional_extension_eq:
  "make_extension exists ext cfg ''gssapi.raw.ext_%s'' m [] =
     (if exists (''gssapi/raw/ext_'' @ m @ ''.'' @ ext) then Inr (optional_unit cfg ext m)
      else Inl (OSError (''gssapi/raw/ext_'' @ m @ ''.'' @ ext)))"
  by (simp add: make_extension_def replace_dots_def optional_unit_def build_unit_def)

lemma try_enum_extension_eq:
  "try_enum_extension exists ext cfg m st =
     Inr (if exists (''gssapi/raw/_enum_extensions/ext_'' @ m @ ''.'' @ ext)
          then st\<lparr>ENUM_EXTS := ENUM_EXTS st @ [companion_unit cfg ext m]\<rparr> else st)"
  by (simp add: try_enum_extension_def make_extension_def replace_dots_def companion_unit_def
      build_unit_def)

lemma extension_file_eq:
  "extension_file exists ext cfg m canary st =
     (if \<not> supported cfg canary then Inr (None, st\<lparr>stdout := stdout st @ [skip_message m]\<rparr>)
      else if \<not> exists (''gssapi/raw/ext_'' @ m @ ''.'' @ ext)
      then Inl (OSError (''gssapi/raw/ext_'' @ m @ ''.'' @ ext))
      else Inr (Some (optional_unit cfg ext m),
                if exists (''gssapi/raw/_enum_extensions/ext_'' @ m @ ''.'' @ ext)
                then st\<lparr>ENUM_EXTS := ENUM_EXTS st @ [companion_unit cfg ext m]\<rparr> else st))"
  by (simp add: extension_file_def supported_def try_enum_extension_eq optional_extension_eq)

subsection \<open>Calls in sequence\<close>

lemma each_Inr:
  "each f xs = Inr ys \<Longrightarrow> \<forall>x \<in> set xs. \<exists>y. f x = Inr y"
  by (induction xs arbitrary: ys) (auto simp: and_then_def split: sum.splits)

lemma each_map:
  "\<forall>x \<in> set xs. f x = Inr (g x) \<Longrightarrow> each f xs = Inr (map g xs)"
  by (induction xs) auto

lemma each_raises:
  assumes "x \<in> set xs" and "\<not> ok x"
    and "\<And>y. f y = (if ok y then Inr (g y) else Inl (OSError (src y)))"
  shows "\<exists>p. each f xs = Inl (OSError p)"
  using assms(1,2)
proof (induction xs)
  case Nil
  then show ?case by simp
next
  case (Cons y ys)
  show ?case
  proof (cases "ok y")
    case False
    then show ?thesis by (simp add: assms(3))
  next
    case True
    then have fy: "f y = Inr (g y)" by (simp add: assms(3))
    from True Cons have "\<exists>p. each f ys = Inl (OSError p)" by auto
    with fy show ?thesis by auto
  qed
qed

lemma each_main_file_Inr:
  assumes "each (main_file exists ext cfg) core = Inr cs"
  shows "cs = map (core_unit cfg ext) core"
proof -
  from each_Inr [OF assms]
  have "\<forall>m \<in> set core. main_file exists ext cfg m = Inr (core_unit cfg ext m)"
    by (auto simp: main_file_eq split: if_splits)
  from each_map [OF this] assms show ?thesis by simp
qed

lemma each_mech_Inr:
  assumes "each (\<lambda>m. make_extension exists ext cfg ''gssapi.raw.mech_%s'' m []) ms = Inr us"
  shows "us = map (mech_unit cfg ext) ms"
proof -
  from each_Inr [OF assms]
  have "\<forall>m \<in> set ms. make_extension exists ext cfg ''gssapi.raw.mech_%s'' m []
                 = Inr (mech_unit cfg ext m)"
    by (auto simp: mech_extension_eq split: if_splits)
  from each_map [OF this] assms show ?thesis by simp
qed

lemma not_none_Some_append: "not_none (map Some cs @ xs) = cs @ not_none xs"
  by (induction cs) auto

subsection \<open>The optional modules\<close>

text \<open>What a walk over the optional modules returns and leaves behind when it ends.\<close>

lemma extension_files_Inr:
  "extension_files exists ext cfg optional st = Inr (xs, st') \<Longrightarrow>
     not_none xs = map (optional_unit cfg ext) (map fst (filter (\<lambda>(m, c). supported cfg c) optional))
     \<and> ENUM_EXTS st' = ENUM_EXTS st @
         map (companion_unit cfg ext)
           (map fst (filter (\<lambda>(m, c). supported cfg c
                        \<and> exists (''gssapi/raw/_enum_extensions/ext_'' @ m @ ''.'' @ ext)) optional))
     \<and> stdout st' = stdout st @
         map skip_message (map fst (filter (\<lambda>(m, c). \<not> supported cfg c) optional))
     \<and> environ st' = environ st"
proof (induction optional arbitrary: xs st st')
  case Nil
  then show ?case by simp
next
  case (Cons mc rest)
  obtain m c where mc: "mc = (m, c)" by (cases mc)
  from Cons.prems mc obtain x st1 xs' where
    one: "extension_file exists ext cfg m c st = Inr (x, st1)" and
    more: "extension_files exists ext cfg rest st1 = Inr (xs', st')" and
    xs: "xs = x # xs'"
    by (auto simp: and_then_def split: sum.splits prod.splits)
  note ih = Cons.IH [OF more]
  show ?case
  proof (cases "supported cfg c")
    case False
    with one have "x = None" "st1 = st\<lparr>stdout := stdout st @ [skip_message m]\<rparr>"
      by (auto simp: extension_file_eq)
    with ih False mc xs show ?thesis by simp
  next
    case True
    with one have x: "x = Some (optional_unit cfg ext m)"
      and st1: "st1 = (if exists (''gssapi/raw/_enum_extensions/ext_'' @ m @ ''.'' @ ext)
                then st\<lparr>ENUM_EXTS := ENUM_EXTS st @ [companion_unit cfg ext m]\<rparr> else st)"
      by (auto simp: extension_file_eq split: if_splits)
    with ih True mc xs show ?thesis by simp
  qed
qed

text \<open>The walk ends when every supported optional module has its source file.\<close>

lemma extension_files_returns:
  "\<forall>(m, c) \<in> set optional. supported cfg c \<longrightarrow> exists (''gssapi/raw/ext_'' @ m @ ''.'' @ ext)
     \<Longrightarrow> \<exists>xs st'. extension_files exists ext cfg optional st = Inr (xs, st')"
proof (induction optional arbitrary: st)
  case Nil
  then show ?case by simp
next
  case (Cons mc rest)
  obtain m c where mc: "mc = (m, c)" by (cases mc)
  from Cons.prems mc
  have "supported cfg c \<longrightarrow> exists (''gssapi/raw/ext_'' @ m @ ''.'' @ ext)" by simp
  then have "\<exists>x st1. extension_file exists ext cfg m c st = Inr (x, st1)"
    by (simp add: extension_file_eq)
  then obtain x st1 where
    one: "extension_file exists ext cfg m c st = Inr (x, st1)" by blast
  from Cons.prems have "\<forall>(m, c) \<in> set rest.
      supported cfg c \<longrightarrow> exists (''gssapi/raw/ext_'' @ m @ ''.'' @ ext)" by simp
  from Cons.IH [OF this] obtain xs st' where
    "extension_files exists ext cfg rest st1 = Inr (xs, st')" by blast
  with one mc show ?case by simp
qed

subsection \<open>The whole list\<close>

lemma gssapi_modules_returns:
  assumes "\<forall>mech \<in> set (mechs st). exists (''gssapi/raw/mech_'' @ mech @ ''.'' @ ext)"
  shows "gssapi_modules exists ext cfg lst st
           = Inr (not_none lst @ map (mech_unit cfg ext) (mechs st) @ ENUM_EXTS st)"
proof -
  from assms have "\<forall>m \<in> set (mechs st).
      make_extension exists ext cfg ''gssapi.raw.mech_%s'' m [] = Inr (mech_unit cfg ext m)"
    by (simp add: mech_extension_eq)
  from each_map [OF this] show ?thesis by (simp add: gssapi_modules_def)
qed


lemma gssapi_modules_Inr:
  assumes "gssapi_modules exists ext cfg lst st = Inr units"
  shows "units = not_none lst @ map (mech_unit cfg ext) (mechs st) @ ENUM_EXTS st"
proof -
  from assms obtain ms where
    ms: "each (\<lambda>m. make_extension exists ext cfg ''gssapi.raw.mech_%s'' m []) (mechs st) = Inr ms"
    and units: "units = not_none lst @ ms @ ENUM_EXTS st"
    by (auto simp: gssapi_modules_def and_then_eq_Inr)
  from each_mech_Inr [OF ms] units show ?thesis by simp
qed

text \<open>The layout of the list that \<open>setup\<close> receives.\<close>

lemma ext_modules_Inr:
  assumes "ext_modules exists ext cfg core optional st = Inr (units, st')"
  shows "units =
           map (core_unit cfg ext) core
           @ map (optional_unit cfg ext) (map fst (filter (\<lambda>(m, c). supported cfg c) optional))
           @ map (mech_unit cfg ext) (mechs st)
           @ ENUM_EXTS st
           @ map (companion_unit cfg ext)
               (map fst (filter (\<lambda>(m, c). supported cfg c
                  \<and> exists (''gssapi/raw/_enum_extensions/ext_'' @ m @ ''.'' @ ext)) optional))"
    and "stdout st' = stdout st @
           map skip_message (map fst (filter (\<lambda>(m, c). \<not> supported cfg c) optional))"
proof -
  from assms obtain cs xs where
    cs: "each (main_file exists ext cfg) core = Inr cs" and
    xs: "extension_files exists ext cfg optional st = Inr (xs, st')" and
    units: "gssapi_modules exists ext cfg (map Some cs @ xs) st' = Inr units"
    by (auto simp: ext_modules_def and_then_eq_Inr)
  note walk = extension_files_Inr [OF xs]
  from walk have "mechs st' = mechs st" by (simp add: mechs_def)
  with gssapi_modules_Inr [OF units]
  have "units = cs @ not_none xs @ map (mech_unit cfg ext) (mechs st) @ ENUM_EXTS st'"
    by (simp add: not_none_Some_append)
  with each_main_file_Inr [OF cs] walk
  show "units =
           map (core_unit cfg ext) core
           @ map (optional_unit cfg ext) (map fst (filter (\<lambda>(m, c). supported cfg c) optional))
           @ map (mech_unit cfg ext) (mechs st)
           @ ENUM_EXTS st
           @ map (companion_unit cfg ext)
               (map fst (filter (\<lambda>(m, c). supported cfg c
                  \<and> exists (''gssapi/raw/_enum_extensions/ext_'' @ m @ ''.'' @ ext)) optional))"
    by simp
  from walk show "stdout st' = stdout st @
           map skip_message (map fst (filter (\<lambda>(m, c). \<not> supported cfg c) optional))"
    by simp
qed

text \<open>The list is produced when every source file it needs exists.\<close>

lemma ext_modules_returns:
  assumes core: "\<forall>m \<in> set core. exists (''gssapi/raw/'' @ m @ ''.'' @ ext)"
    and optional: "\<forall>(m, c) \<in> set optional.
          supported cfg c \<longrightarrow> exists (''gssapi/raw/ext_'' @ m @ ''.'' @ ext)"
    and mech: "\<forall>mech \<in> set (mechs st). exists (''gssapi/raw/mech_'' @ mech @ ''.'' @ ext)"
  shows "\<exists>units st'. ext_modules exists ext cfg core optional st = Inr (units, st')"
proof -
  from core have "\<forall>m \<in> set core. main_file exists ext cfg m = Inr (core_unit cfg ext m)"
    by (simp add: main_file_eq)
  from each_map [OF this]
  have cs: "each (main_file exists ext cfg) core = Inr (map (core_unit cfg ext) core)" .
  from extension_files_returns [OF optional] obtain xs st' where
    xs: "extension_files exists ext cfg optional st = Inr (xs, st')" by blast
  from extension_files_Inr [OF xs] have "mechs st' = mechs st" by (simp add: mechs_def)
  with mech have "\<forall>mech \<in> set (mechs st'). exists (''gssapi/raw/mech_'' @ mech @ ''.'' @ ext)"
    by simp
  from gssapi_modules_returns [OF this] cs xs show ?thesis
    by (simp add: ext_modules_def)
qed

subsection \<open>The order of the build units\<close>

text \<open>The names of the units of setup.py when detection is disabled and every file exists.\<close>

lemma example_mechs: "mechs (example_process Map.empty) = [''krb5'']"
  by (simp add: mechs_def example_process_def)

lemma example_supported: "supported example_config canary"
  by (simp add: supported_def example_config_def)

text \<open>
  C3, as stated, fails: with detection disabled, every source file present and the default
  mechanism list, the optional-capability units \<open>gssapi.raw.ext_s4u\<close> to
  \<open>gssapi.raw.ext_password_add\<close> come right after the ten core units, and the
  mechanism unit \<open>gssapi.raw.mech_krb5\<close> comes after them, followed by the companion
  units.
\<close>

theorem ext_modules_order_counterexample:
  "map_sum id (\<lambda>(units, st'). map ext_name units)
     (setup_ext_modules (\<lambda>p. True) ''pyx'' example_config (example_process Map.empty))
   = Inr [''gssapi.raw.misc'', ''gssapi.raw.exceptions'', ''gssapi.raw.creds'',
          ''gssapi.raw.names'', ''gssapi.raw.sec_contexts'', ''gssapi.raw.types'',
          ''gssapi.raw.message'', ''gssapi.raw.oids'', ''gssapi.raw.cython_converters'',
          ''gssapi.raw.chan_bindings'',
          ''gssapi.raw.ext_s4u'', ''gssapi.raw.ext_cred_store'', ''gssapi.raw.ext_rfc5587'',
          ''gssapi.raw.ext_rfc5588'', ''gssapi.raw.ext_rfc5801'',
          ''gssapi.raw.ext_cred_imp_exp'', ''gssapi.raw.ext_dce'', ''gssapi.raw.ext_iov_mic'',
          ''gssapi.raw.ext_ggf'', ''gssapi.raw.ext_set_cred_opt'', ''gssapi.raw.ext_rfc6680'',
          ''gssapi.raw.ext_rfc6680_comp_oid'', ''gssapi.raw.ext_password'',
          ''gssapi.raw.ext_password_add'',
          ''gssapi.raw.mech_krb5'',
          ''gssapi.raw._enum_extensions.ext_s4u'',
          ''gssapi.raw._enum_extensions.ext_cred_store'',
          ''gssapi.raw._enum_extensions.ext_rfc5587'',
          ''gssapi.raw._enum_extensions.ext_rfc5588'',
          ''gssapi.raw._enum_extensions.ext_rfc5801'',
          ''gssapi.raw._enum_extensions.ext_cred_imp_exp'',
          ''gssapi.raw._enum_extensions.ext_dce'',
          ''gssapi.raw._enum_extensions.ext_iov_mic'',
          ''gssapi.raw._enum_extensions.ext_ggf'',
          ''gssapi.raw._enum_extensions.ext_set_cred_opt'',
          ''gssapi.raw._enum_extensions.ext_rfc6680'',
          ''gssapi.raw._enum_extensions.ext_rfc6680_comp_oid'',
          ''gssapi.raw._enum_extensions.ext_password'',
          ''gssapi.raw._enum_extensions.ext_password_add'']"
proof -
  have "\<exists>units st'. ext_modules (\<lambda>p. True) ''pyx'' example_config MAIN_FILES EXTENSION_FILES
          ((example_process Map.empty)\<lparr>ENUM_EXTS := []\<rparr>) = Inr (units, st')"
    by (rule ext_modules_returns) auto
  then obtain units st' where
    run: "ext_modules (\<lambda>p. True) ''pyx'' example_config MAIN_FILES EXTENSION_FILES
            ((example_process Map.empty)\<lparr>ENUM_EXTS := []\<rparr>) = Inr (units, st')" by blast
  have same: "(example_process Map.empty)\<lparr>ENUM_EXTS := []\<rparr> = example_process Map.empty"
    by (simp add: example_process_def)
  from ext_modules_Inr(1) [OF run]
  have "map ext_name units =
          map (\<lambda>m. ''gssapi.raw.'' @ m) MAIN_FILES
          @ map (\<lambda>m. ''gssapi.raw.ext_'' @ m) (map fst EXTENSION_FILES)
          @ [''gssapi.raw.mech_krb5'']
          @ map (\<lambda>m. ''gssapi.raw._enum_extensions.ext_'' @ m) (map fst EXTENSION_FILES)"
    by (simp add: same example_mechs example_supported core_unit_def optional_unit_def
        mech_unit_def companion_unit_def build_unit_def comp_def)
       (simp add: example_process_def)
  with run show ?thesis
    by (simp add: setup_ext_modules_def MAIN_FILES_def EXTENSION_FILES_def)
qed

text \<open>
  C3, amended. For every catalogue, configuration and probe outcome, the list that is
  produced is, in this order: the core units in catalogue order; the optional-capability
  units that are built, in catalogue order; the mechanism units in the order of the
  mechanism list; the enum extensions already recorded (none in a run of setup.py); the
  companion units of the optional modules that are built and whose companion source
  exists, in catalogue order.
\<close>

theorem ext_modules_order:
  assumes "ext_modules exists ext cfg core optional st = Inr (units, st')"
  shows "units =
           map (core_unit cfg ext) core
           @ map (optional_unit cfg ext) (map fst (filter (\<lambda>(m, c). supported cfg c) optional))
           @ map (mech_unit cfg ext) (mechs st)
           @ ENUM_EXTS st
           @ map (companion_unit cfg ext)
               (map fst (filter (\<lambda>(m, c). supported cfg c
                  \<and> exists (''gssapi/raw/_enum_extensions/ext_'' @ m @ ''.'' @ ext)) optional))"
  using assms by (rule ext_modules_Inr)

text \<open>A small catalogue on which the list is computed outright.\<close>

lemma small_catalogue_run:
  "ext_modules (\<lambda>p. p \<noteq> ''gssapi/raw/_enum_extensions/ext_dce.c'') ''c''
      example_probing_config
      [''misc'', ''creds'']
      [(''s4u'', ''gss_acquire_cred_impersonate_name''), (''rfc5588'', ''gss_store_cred''),
       (''dce'', ''gss_wrap_iov'')]
      (example_process [''GSSAPI_MECHS'' \<mapsto> ''krb5,ntlm''])
   = Inr ([core_unit example_probing_config ''c'' ''misc'',
           core_unit example_probing_config ''c'' ''creds'',
           optional_unit example_probing_config ''c'' ''rfc5588'',
           optional_unit example_probing_config ''c'' ''dce'',
           mech_unit example_probing_config ''c'' ''krb5'',
           mech_unit example_probing_config ''c'' ''ntlm'',
           companion_unit example_probing_config ''c'' ''rfc5588''],
          \<lparr>environ = [''GSSAPI_MECHS'' \<mapsto> ''krb5,ntlm''],
           stdout = [skip_message ''s4u''],
           ENUM_EXTS = [companion_unit example_probing_config ''c'' ''rfc5588'']\<rparr>)"
  by (simp add: ext_modules_def main_file_eq extension_file_eq gssapi_modules_def
      mech_extension_eq mechs_def example_process_def supported_def hasattr_def
      example_config_def example_probing_config_def)

theorem ext_modules_order_witness:
  "map_sum id (\<lambda>(units, st'). map ext_name units)
     (ext_modules (\<lambda>p. p \<noteq> ''gssapi/raw/_enum_extensions/ext_dce.c'') ''c''
        example_probing_config
        [''misc'', ''creds'']
        [(''s4u'', ''gss_acquire_cred_impersonate_name''), (''rfc5588'', ''gss_store_cred''),
         (''dce'', ''gss_wrap_iov'')]
        (example_process [''GSSAPI_MECHS'' \<mapsto> ''krb5,ntlm'']))
   = Inr [''gssapi.raw.misc'', ''gssapi.raw.creds'', ''gssapi.raw.ext_rfc5588'',
          ''gssapi.raw.ext_dce'', ''gssapi.raw.mech_krb5'', ''gssapi.raw.mech_ntlm'',
          ''gssapi.raw._enum_extensions.ext_rfc5588'']"
  using ext_modules_order [OF small_catalogue_run]
  by (simp only: small_catalogue_run)
     (simp add: core_unit_def optional_unit_def mech_unit_def companion_unit_def build_unit_def
        supported_def hasattr_def example_config_def example_probing_config_def mechs_def
        example_process_def)

subsection \<open>Detection disabled\<close>

text \<open>
  C5. When capability detection is disabled, whatever the library handle is, every
  optional-capability module of the catalogue has its unit in the list that is produced,
  and no module is reported as skipped.
\<close>

theorem optional_units_without_detection:
  assumes "\<not> enable_support_detect cfg"
    and "ext_modules exists ext cfg core optional st = Inr (units, st')"
  shows "(\<forall>(m, c) \<in> set optional. optional_unit cfg ext m \<in> set units)
         \<and> stdout st' = stdout st"
proof -
  from assms(1) have all: "\<And>c. supported cfg c" by (simp add: supported_def)
  note layout = ext_modules_Inr [OF assms(2)]
  have "optional_unit cfg ext m \<in> set units" if "(m, c) \<in> set optional" for m c
  proof -
    from that have "m \<in> fst ` set optional" by force
    then have "optional_unit cfg ext m
        \<in> set (map (optional_unit cfg ext) (map fst (filter (\<lambda>(m, c). supported cfg c) optional)))"
      using all by auto
    then show ?thesis unfolding layout(1) by simp
  qed
  moreover from layout(2) have "stdout st' = stdout st" by (simp add: all)
  ultimately show ?thesis by blast
qed

theorem optional_units_without_detection_witness:
  "(case setup_ext_modules (\<lambda>p. True) ''pyx''
           (example_config\<lparr>gssapi_lib := Some {}\<rparr>) (example_process Map.empty) of
      Inl e \<Rightarrow> False
    | Inr (units, st') \<Rightarrow>
        list_all (\<lambda>m. optional_unit (example_config\<lparr>gssapi_lib := Some {}\<rparr>) ''pyx'' m \<in> set units)
          [''s4u'', ''cred_store'', ''rfc5587'', ''rfc5588'', ''rfc5801'', ''cred_imp_exp'',
           ''dce'', ''iov_mic'', ''ggf'', ''set_cred_opt'', ''rfc6680'', ''rfc6680_comp_oid'',
           ''password'', ''password_add'']
        \<and> stdout st' = [])"
proof -
  have off: "\<not> enable_support_detect (example_config\<lparr>gssapi_lib := Some {}\<rparr>)"
    by (simp add: example_config_def)
  have "\<exists>units st'. ext_modules (\<lambda>p. True) ''pyx'' (example_config\<lparr>gssapi_lib := Some {}\<rparr>)
          MAIN_FILES EXTENSION_FILES ((example_process Map.empty)\<lparr>ENUM_EXTS := []\<rparr>)
          = Inr (units, st')"
    by (rule ext_modules_returns) auto
  then obtain units st' where
    run: "ext_modules (\<lambda>p. True) ''pyx'' (example_config\<lparr>gssapi_lib := Some {}\<rparr>)
            MAIN_FILES EXTENSION_FILES ((example_process Map.empty)\<lparr>ENUM_EXTS := []\<rparr>)
            = Inr (units, st')" by blast
  from optional_units_without_detection [OF off run]
  have "list_all (\<lambda>m. optional_unit (example_config\<lparr>gssapi_lib := Some {}\<rparr>) ''pyx'' m \<in> set units)
          [''s4u'', ''cred_store'', ''rfc5587'', ''rfc5588'', ''rfc5801'', ''cred_imp_exp'',
           ''dce'', ''iov_mic'', ''ggf'', ''set_cred_opt'', ''rfc6680'', ''rfc6680_comp_oid'',
           ''password'', ''password_add'']
        \<and> stdout st' = []"
    by (simp add: EXTENSION_FILES_def example_process_def)
  with run show ?thesis by (simp add: setup_ext_modules_def)
qed

subsection \<open>A gating symbol that the library lacks\<close>

lemma EXTENSION_FILES_distinct: "distinct (map fst EXTENSION_FILES)"
  by (simp add: EXTENSION_FILES_def)

lemma MAIN_FILES_not_ext: "core \<in> set MAIN_FILES \<Longrightarrow> core \<noteq> ''ext_'' @ m"
  by (auto simp: MAIN_FILES_def)

lemma MAIN_FILES_not_enum: "core \<in> set MAIN_FILES \<Longrightarrow> core \<noteq> ''_enum_extensions.ext_'' @ m"
  by (auto simp: MAIN_FILES_def)

lemma unit_names [simp]:
  "ext_name (core_unit cfg ext m) = ''gssapi.raw.'' @ m"
  "ext_name (optional_unit cfg ext m) = ''gssapi.raw.ext_'' @ m"
  "ext_name (mech_unit cfg ext m) = ''gssapi.raw.mech_'' @ m"
  "ext_name (companion_unit cfg ext m) = ''gssapi.raw._enum_extensions.ext_'' @ m"
  by (simp_all add: core_unit_def optional_unit_def mech_unit_def companion_unit_def
      build_unit_def)

text \<open>Where a unit of the list comes from.\<close>

lemma unit_origin:
  assumes "u \<in> set (map (core_unit cfg ext) core
             @ map (optional_unit cfg ext) (map fst built)
             @ map (mech_unit cfg ext) ms
             @ map (companion_unit cfg ext) (map fst paired))"
  obtains (core) m where "m \<in> set core" and "u = core_unit cfg ext m"
    | (optional) m c where "(m, c) \<in> set built" and "u = optional_unit cfg ext m"
    | (mech) m where "m \<in> set ms" and "u = mech_unit cfg ext m"
    | (companion) m c where "(m, c) \<in> set paired" and "u = companion_unit cfg ext m"
  using assms by auto

lemma skip_message_eq:
  "skip_message m =
     ''Skipping the '' @ m
       @ '' extension because it is not supported by your GSSAPI implementation...''"
  by (simp add: skip_message_def)

text \<open>
  C6. In a run of setup.py with capability detection enabled, when the library lacks the
  gating symbol of an optional module of the catalogue, the list that is produced has
  neither the unit of that module nor the unit of its companion enum extension, the
  output has the line \<open>Skipping the <module> extension because it is not supported by
  your GSSAPI implementation...\<close> with the name of the module in it, and every core
  module has its unit in the list.
\<close>

theorem unsupported_module_skipped:
  assumes on: "enable_support_detect cfg"
    and entry: "(m, c) \<in> set EXTENSION_FILES"
    and lacks: "\<not> hasattr (gssapi_lib cfg) c"
    and run: "setup_ext_modules exists ext cfg st = Inr (units, st')"
  shows "''gssapi.raw.ext_'' @ m \<notin> ext_name ` set units
         \<and> ''gssapi.raw._enum_extensions.ext_'' @ m \<notin> ext_name ` set units
         \<and> (''Skipping the '' @ m
              @ '' extension because it is not supported by your GSSAPI implementation...'')
             \<in> set (stdout st')
         \<and> (\<forall>core \<in> set MAIN_FILES. core_unit cfg ext core \<in> set units)"
proof -
  from on lacks have unsupported: "\<not> supported cfg c" by (simp add: supported_def)
  have other: "c' = c" if "(m, c') \<in> set EXTENSION_FILES" for c'
    using eq_key_imp_eq_value [OF EXTENSION_FILES_distinct that entry] .
  from run have run': "ext_modules exists ext cfg MAIN_FILES EXTENSION_FILES
      (st\<lparr>ENUM_EXTS := []\<rparr>) = Inr (units, st')"
    by (simp add: setup_ext_modules_def)
  note layout = ext_modules_Inr [OF run']
  have absent: "ext_name u \<noteq> ''gssapi.raw.ext_'' @ m
      \<and> ext_name u \<noteq> ''gssapi.raw._enum_extensions.ext_'' @ m" if "u \<in> set units" for u
  proof -
    from that layout(1) have "u \<in> set (map (core_unit cfg ext) MAIN_FILES
             @ map (optional_unit cfg ext)
                 (map fst (filter (\<lambda>(m, c). supported cfg c) EXTENSION_FILES))
             @ map (mech_unit cfg ext) (mechs (st\<lparr>ENUM_EXTS := []\<rparr>))
             @ map (companion_unit cfg ext)
                 (map fst (filter (\<lambda>(m, c). supported cfg c
                    \<and> exists (''gssapi/raw/_enum_extensions/ext_'' @ m @ ''.'' @ ext))
                    EXTENSION_FILES)))"
      by simp
    then show ?thesis
    proof (cases rule: unit_origin)
      case (core m')
      with MAIN_FILES_not_ext [of m' m] MAIN_FILES_not_enum [of m' m] show ?thesis by simp
    next
      case (optional m' c')
      then have "(m', c') \<in> set EXTENSION_FILES" and "supported cfg c'" by auto
      with other unsupported have "m' \<noteq> m" by blast
      with optional show ?thesis by simp
    next
      case (mech m')
      then show ?thesis by simp
    next
      case (companion m' c')
      then have "(m', c') \<in> set EXTENSION_FILES" and "supported cfg c'" by auto
      with other unsupported have "m' \<noteq> m" by blast
      with companion show ?thesis by simp
    qed
  qed
  from entry unsupported
  have "(m, c) \<in> set (filter (\<lambda>(m, c). \<not> supported cfg c) EXTENSION_FILES)" by simp
  then have "fst (m, c) \<in> fst ` set (filter (\<lambda>(m, c). \<not> supported cfg c) EXTENSION_FILES)"
    by (rule imageI)
  then have "skip_message m \<in> skip_message `
      fst ` set (filter (\<lambda>(m, c). \<not> supported cfg c) EXTENSION_FILES)"
    by (simp only: fst_conv imageI)
  then have printed: "skip_message m \<in> set (stdout st')"
    unfolding layout(2) set_append set_map by (rule UnI2)
  have cores: "\<forall>core \<in> set MAIN_FILES. core_unit cfg ext core \<in> set units"
    unfolding layout(1) by simp
  have no_primary: "''gssapi.raw.ext_'' @ m \<notin> ext_name ` set units"
  proof
    assume "''gssapi.raw.ext_'' @ m \<in> ext_name ` set units"
    then obtain u where eq: "''gssapi.raw.ext_'' @ m = ext_name u" and u: "u \<in> set units"
      by (rule imageE)
    from absent [OF u] have ne: "ext_name u \<noteq> ''gssapi.raw.ext_'' @ m" by (rule conjunct1)
    from ne eq [symmetric] show False by (rule notE)
  qed
  have no_companion: "''gssapi.raw._enum_extensions.ext_'' @ m \<notin> ext_name ` set units"
  proof
    assume "''gssapi.raw._enum_extensions.ext_'' @ m \<in> ext_name ` set units"
    then obtain u where eq: "''gssapi.raw._enum_extensions.ext_'' @ m = ext_name u"
      and u: "u \<in> set units"
      by (rule imageE)
    from absent [OF u] have ne: "ext_name u \<noteq> ''gssapi.raw._enum_extensions.ext_'' @ m"
      by (rule conjunct2)
    from ne eq [symmetric] show False by (rule notE)
  qed
  from printed have line: "(''Skipping the '' @ m
         @ '' extension because it is not supported by your GSSAPI implementation...'')
        \<in> set (stdout st')"
    by (simp only: skip_message_eq)
  from no_primary no_companion line cores show ?thesis by (intro conjI)
qed

theorem unsupported_module_skipped_witness:
  "(case setup_ext_modules (\<lambda>p. True) ''c'' example_probing_config (example_process Map.empty) of
      Inl e \<Rightarrow> False
    | Inr (units, st') \<Rightarrow>
        ''gssapi.raw.ext_s4u'' \<notin> ext_name ` set units
        \<and> ''gssapi.raw._enum_extensions.ext_s4u'' \<notin> ext_name ` set units
        \<and> ''Skipping the s4u extension because it is not supported by your GSSAPI implementation...''
            \<in> set (stdout st')
        \<and> list_all (\<lambda>core. core_unit example_probing_config ''c'' core \<in> set units) MAIN_FILES)"
proof -
  have on: "enable_support_detect example_probing_config"
    by (simp add: example_probing_config_def)
  have entry: "(''s4u'', ''gss_acquire_cred_impersonate_name'') \<in> set EXTENSION_FILES"
    by (simp add: EXTENSION_FILES_def)
  have lacks: "\<not> hasattr (gssapi_lib example_probing_config) ''gss_acquire_cred_impersonate_name''"
    by (simp add: example_probing_config_def hasattr_def)
  have "\<exists>units st'. ext_modules (\<lambda>p. True) ''c'' example_probing_config
          MAIN_FILES EXTENSION_FILES ((example_process Map.empty)\<lparr>ENUM_EXTS := []\<rparr>)
          = Inr (units, st')"
    by (rule ext_modules_returns) auto
  then obtain units st' where
    run: "setup_ext_modules (\<lambda>p. True) ''c'' example_probing_config (example_process Map.empty)
            = Inr (units, st')"
    unfolding setup_ext_modules_def by blast
  from unsupported_module_skipped [OF on entry lacks run]
  have "''gssapi.raw.ext_s4u'' \<notin> ext_name ` set units
        \<and> ''gssapi.raw._enum_extensions.ext_s4u'' \<notin> ext_name ` set units
        \<and> ''Skipping the s4u extension because it is not supported by your GSSAPI implementation...''
            \<in> set (stdout st')
        \<and> list_all (\<lambda>core. core_unit example_probing_config ''c'' core \<in> set units) MAIN_FILES"
    by (simp add: list_all_iff)
  with run show ?thesis by simp
qed

subsection \<open>Missing source files\<close>

lemma each_main_file_raises:
  assumes "m \<in> set core" and "\<not> exists (''gssapi/raw/'' @ m @ ''.'' @ ext)"
  shows "\<exists>p. each (main_file exists ext cfg) core = Inl (OSError p)"
  using each_raises [of m core "\<lambda>m. exists (''gssapi/raw/'' @ m @ ''.'' @ ext)"
      "main_file exists ext cfg" "core_unit cfg ext" "\<lambda>m. ''gssapi/raw/'' @ m @ ''.'' @ ext"]
    assms
  by (simp add: main_file_eq)

text \<open>
  C7. When the source file of a core module is missing for the source format in use, the
  evaluation of the list of build units ends with an \<open>OSError\<close> and no list, whatever
  the other modules are. When the source file of the companion enum extension of an
  optional module is missing, while the module is built and its own source exists,
  \<open>extension_file\<close> returns the unit of the module and leaves the process as it was:
  nothing is printed, nothing is recorded in \<open>ENUM_EXTS\<close>, and no error is raised.
\<close>

theorem missing_source_files:
  "(m \<in> set core \<and> \<not> exists (''gssapi/raw/'' @ m @ ''.'' @ ext) \<longrightarrow>
      (\<exists>p. ext_modules exists ext cfg core optional st = Inl (OSError p)))
   \<and> (supported cfg canary \<and> exists (''gssapi/raw/ext_'' @ module @ ''.'' @ ext)
        \<and> \<not> exists (''gssapi/raw/_enum_extensions/ext_'' @ module @ ''.'' @ ext) \<longrightarrow>
      extension_file exists ext cfg module canary st = Inr (Some (optional_unit cfg ext module), st))"
proof (intro conjI impI)
  assume "m \<in> set core \<and> \<not> exists (''gssapi/raw/'' @ m @ ''.'' @ ext)"
  then obtain p where "each (main_file exists ext cfg) core = Inl (OSError p)"
    using each_main_file_raises by blast
  then show "\<exists>p. ext_modules exists ext cfg core optional st = Inl (OSError p)"
    by (simp add: ext_modules_def)
next
  assume "supported cfg canary \<and> exists (''gssapi/raw/ext_'' @ module @ ''.'' @ ext)
        \<and> \<not> exists (''gssapi/raw/_enum_extensions/ext_'' @ module @ ''.'' @ ext)"
  then show "extension_file exists ext cfg module canary st
      = Inr (Some (optional_unit cfg ext module), st)"
    by (simp add: extension_file_eq)
qed

theorem missing_source_files_witness:
  "setup_ext_modules (\<lambda>p. p \<noteq> ''gssapi/raw/types.pyx'') ''pyx'' example_config
       (example_process Map.empty)
     = Inl (OSError ''gssapi/raw/types.pyx'')
   \<and> map_sum id (\<lambda>(x, st'). (map_option ext_name x, stdout st', ENUM_EXTS st'))
       (extension_file (\<lambda>p. p \<noteq> ''gssapi/raw/_enum_extensions/ext_dce.pyx'') ''pyx''
          example_config ''dce'' ''gss_wrap_iov'' (example_process Map.empty))
     = Inr (Some ''gssapi.raw.ext_dce'', [], [])"
proof -
  have missing: "''types'' \<in> set MAIN_FILES
      \<and> \<not> (''gssapi/raw/'' @ ''types'' @ ''.'' @ ''pyx'' \<noteq> ''gssapi/raw/types.pyx'')"
    by (simp add: MAIN_FILES_def)
  note both = missing_source_files [where m = "''types''" and core = MAIN_FILES
      and exists = "\<lambda>p. p \<noteq> ''gssapi/raw/types.pyx''" and ext = "''pyx''"
      and cfg = example_config and optional = EXTENSION_FILES
      and st = "(example_process Map.empty)\<lparr>ENUM_EXTS := []\<rparr>"]
  from both missing
  have "\<exists>p. setup_ext_modules (\<lambda>p. p \<noteq> ''gssapi/raw/types.pyx'') ''pyx'' example_config
       (example_process Map.empty) = Inl (OSError p)"
    unfolding setup_ext_modules_def by blast
  moreover
  have "setup_ext_modules (\<lambda>p. p \<noteq> ''gssapi/raw/types.pyx'') ''pyx'' example_config
       (example_process Map.empty) = Inl (OSError ''gssapi/raw/types.pyx'')"
    by (simp add: setup_ext_modules_def ext_modules_def MAIN_FILES_def main_file_eq)
  moreover
  from missing_source_files [where exists = "\<lambda>p. p \<noteq> ''gssapi/raw/_enum_extensions/ext_dce.pyx''"
      and ext = "''pyx''" and cfg = example_config and canary = "''gss_wrap_iov''"
      and module = "''dce''" and st = "example_process Map.empty"]
  have "extension_file (\<lambda>p. p \<noteq> ''gssapi/raw/_enum_extensions/ext_dce.pyx'') ''pyx''
          example_config ''dce'' ''gss_wrap_iov'' (example_process Map.empty)
        = Inr (Some (optional_unit example_config ''pyx'' ''dce''), example_process Map.empty)"
    by (simp add: example_supported)
  ultimately show ?thesis by (simp add: example_process_def)
qed

subsection \<open>Mechanism modules\<close>





end
